theory Spec2Isabelle
  imports
    Main
    "HOL-Library.Log_Nat"
    "HOL-Library.Sublist"
    "HOL-Library.AList"
    "HOL-Library.Char_ord"
    "HOL-Library.List_Lexorder"
begin

section \<open>The safety-data pipeline of \<^verbatim>\<open>scripts/process_safety_data.py\<close>\<close>

text \<open>
  The script reads three tables (the survey, the incidents of 2023 and the street
  accidents of 2017), derives five aggregates and writes them as one JSON document.
  The embedding below follows the script top to bottom.  Tables are given as values
  (reading the CSV files is outside the model); every exception the script can raise
  on such tables is a value of \<open>error\<close>.
\<close>

subsection \<open>Binary64 arithmetic\<close>

text \<open>
  Python's \<^verbatim>\<open>float\<close> is IEEE binary64.  A finite double is modelled by the rational
  number it denotes; every arithmetic operation computes the exact rational result and
  rounds it to the nearest double, ties to the even significand (\<open>fl\<close>).  Subnormal
  numbers are covered by clamping the exponent at \<open>-1022\<close>; overflow to infinity is not
  modelled (no magnitude in this program comes near \<open>2 ^ 1024\<close>).  A decimal literal
  of the script denotes the double nearest to it (\<open>dec\<close>).  The sign of zero is not
  kept: no number this program computes with is negative.

  \<^verbatim>\<open>round(x, n)\<close> has two meanings.  On a Python \<^verbatim>\<open>float\<close> it rounds the exact value of
  \<open>x\<close> (\<open>round_nd\<close>).  On a \<^verbatim>\<open>numpy.float64\<close>, which is what a pandas mean and a cell of
  a numeric row are, it is NumPy's: multiply by \<open>10 ^ n\<close>, round to the nearest integer,
  divide by \<open>10 ^ n\<close>, each step a double operation (\<open>round_np\<close>).  Python's \<^verbatim>\<open>sum\<close> adds
  from the left; the sum inside a pandas mean is NumPy's pairwise reduction
  (\<open>pairwise_sum\<close>).
\<close>

definition pow2 :: "int \<Rightarrow> rat" where
  "pow2 n = (if 0 \<le> n then 2 ^ nat n else 1 / 2 ^ nat (- n))"

definition rhe :: "rat \<Rightarrow> int" where
  \<comment> \<open>round to the nearest integer, ties to even\<close>
  "rhe x = (let f = \<lfloor>x\<rfloor>; d = x - of_int f in
     if d < 1 / 2 then f else if 1 / 2 < d then f + 1 else if even f then f else f + 1)"

definition ilog2 :: "rat \<Rightarrow> int" where
  \<comment> \<open>for \<open>0 < x\<close>: the exponent \<open>e\<close> with \<open>2 ^ e \<le> x < 2 ^ (e + 1)\<close>\<close>
  "ilog2 x = (if 1 \<le> x then bitlen \<lfloor>x\<rfloor> - 1 else - bitlen (\<lceil>1 / x\<rceil> - 1))"

definition fl :: "rat \<Rightarrow> rat" where
  "fl x = (if x = 0 then 0 else
     let q = pow2 (max (ilog2 \<bar>x\<bar>) (- 1022) - 52) in of_int (rhe (x / q)) * q)"

definition fadd :: "rat \<Rightarrow> rat \<Rightarrow> rat" where
  "fadd a b = fl (a + b)"

definition fmul :: "rat \<Rightarrow> rat \<Rightarrow> rat" where
  "fmul a b = fl (a * b)"

definition fdiv :: "rat \<Rightarrow> rat \<Rightarrow> rat" where
  "fdiv a b = fl (a / b)"

definition round_nd :: "nat \<Rightarrow> rat \<Rightarrow> rat" where
  \<comment> \<open>\<^verbatim>\<open>round(x, n)\<close> on a finite double: the exact value of \<open>x\<close> is rounded to \<open>n\<close>
      decimals, ties to even, and the decimal result is converted back to a double\<close>
  "round_nd n x = fl (of_int (rhe (x * 10 ^ n)) / 10 ^ n)"

definition round_np :: "nat \<Rightarrow> rat \<Rightarrow> rat" where
  \<comment> \<open>\<^verbatim>\<open>round(x, n)\<close> on a \<^verbatim>\<open>numpy.float64\<close>: \<^verbatim>\<open>rint(x * 10**n) / 10**n\<close>\<close>
  "round_np n x = fdiv (of_int (rhe (fmul x (10 ^ n)))) (10 ^ n)"

definition dec :: "int \<Rightarrow> nat \<Rightarrow> rat" where
  \<comment> \<open>the double that the decimal literal \<open>m / 10 ^ k\<close> denotes: \<open>dec 4102 2\<close> is
      \<^verbatim>\<open>41.02\<close>\<close>
  "dec m k = fl (of_int m / 10 ^ k)"

text \<open>
  A float-valued cell or intermediate result can also be \<^verbatim>\<open>NaN\<close>, which is how pandas
  marks a missing number and what the mean of no values is.
\<close>

datatype pyfloat = Fin rat | NaN

definition isna :: "pyfloat \<Rightarrow> bool" where
  "isna x = (case x of NaN \<Rightarrow> True | Fin _ \<Rightarrow> False)"

definition pf_add :: "pyfloat \<Rightarrow> pyfloat \<Rightarrow> pyfloat" where
  "pf_add x y = (case (x, y) of (Fin a, Fin b) \<Rightarrow> Fin (fadd a b) | _ \<Rightarrow> NaN)"

definition pf_mul :: "pyfloat \<Rightarrow> pyfloat \<Rightarrow> pyfloat" where
  "pf_mul x y = (case (x, y) of (Fin a, Fin b) \<Rightarrow> Fin (fmul a b) | _ \<Rightarrow> NaN)"

definition pf_ge :: "pyfloat \<Rightarrow> pyfloat \<Rightarrow> bool" where
  \<comment> \<open>\<^verbatim>\<open>x >= y\<close>; every comparison with NaN is false\<close>
  "pf_ge x y = (case (x, y) of (Fin a, Fin b) \<Rightarrow> b \<le> a | _ \<Rightarrow> False)"

definition pf_le :: "pyfloat \<Rightarrow> pyfloat \<Rightarrow> bool" where
  "pf_le x y = (case (x, y) of (Fin a, Fin b) \<Rightarrow> a \<le> b | _ \<Rightarrow> False)"

definition np_round :: "nat \<Rightarrow> pyfloat \<Rightarrow> pyfloat" where
  "np_round n x = (case x of Fin a \<Rightarrow> Fin (round_np n a) | NaN \<Rightarrow> NaN)"

subsection \<open>Printing a float\<close>

text \<open>
  An f-string prints a float by \<^verbatim>\<open>repr\<close>: the shortest decimal that reads back as the
  same double, with at least one digit after the point.  \<open>float_repr\<close> is that for zero
  and for magnitudes from \<open>1e-4\<close> up to \<open>1e16\<close>, where Python prints positional
  notation; the grid coordinates of retained points (around 41 and 17) lie there.
\<close>

function digits :: "int \<Rightarrow> string" where
  "digits n =
     (if n < 10 then [''0123456789'' ! nat n]
      else digits (n div 10) @ [''0123456789'' ! nat (n mod 10)])"
  by pat_completeness auto
termination
  by (relation "measure nat") auto

declare digits.simps [simp del]

primrec shortest_places :: "nat \<Rightarrow> nat \<Rightarrow> rat \<Rightarrow> nat" where
  "shortest_places 0 k x = k"
| "shortest_places (Suc n) k x =
     (if round_nd k x = x then k else shortest_places n (Suc k) x)"

definition float_repr :: "rat \<Rightarrow> string" where
  "float_repr x =
     (let k = shortest_places 17 0 x;
          m = rhe (\<bar>x\<bar> * 10 ^ k);
          frac = digits (m mod 10 ^ k)
      in (if x < 0 then ''-'' else '''') @ digits (m div 10 ^ k) @ ''.'' @
         (if k = 0 then ''0'' else replicate (k - length frac) (CHR ''0'') @ frac))"

subsection \<open>Tables, errors and the column resolver\<close>

text \<open>
  A table is its header (the column names in file order) and its rows; a row gives the
  cell of each column.  Strings are the UTF-8 bytes of the Python string, so equality
  and the substring test \<^verbatim>\<open>in\<close> agree with Python's.  \<^verbatim>\<open>str.lower\<close> depends on the
  Unicode tables, which are no part of the script: it is the parameter \<open>lower\<close> of the
  functions that resolve columns.
\<close>

record 'a frame =
  columns :: "string list"
  rows :: "(string \<Rightarrow> 'a) list"

datatype error = KeyError | IndexError | ValueError

definition first :: "'a list \<Rightarrow> error + 'a" where
  \<comment> \<open>\<^verbatim>\<open>xs[0]\<close>\<close>
  "first xs = (case xs of [] \<Rightarrow> Inl IndexError | x # _ \<Rightarrow> Inr x)"

definition find_cols :: "(string \<Rightarrow> string) \<Rightarrow> string \<Rightarrow> string list \<Rightarrow> string list" where
  \<comment> \<open>\<^verbatim>\<open>[c for c in cols if tok in c.lower()]\<close>\<close>
  "find_cols lower tok cols = filter (\<lambda>c. sublist tok (lower c)) cols"

subsection \<open>Incidents of 2023: bounding box, grid and points\<close>

text \<open>
  Every column of the incident table is numeric and a cell is a finite double or NaN, so
  the rows that \<^verbatim>\<open>iterrows\<close> hands out hold \<^verbatim>\<open>numpy.float64\<close> cells.  Dividing one by a
  Python \<^verbatim>\<open>float\<close> is the double division; the product of the floor, a Python \<^verbatim>\<open>int\<close>,
  with the step is a Python \<^verbatim>\<open>float\<close>.
\<close>

definition lat_col :: "(string \<Rightarrow> string) \<Rightarrow> 'a frame \<Rightarrow> error + string" where
  "lat_col lower df = first (find_cols lower ''latit'' (columns df))"

definition lon_col :: "(string \<Rightarrow> string) \<Rightarrow> 'a frame \<Rightarrow> error + string" where
  "lon_col lower df = first (find_cols lower ''longit'' (columns df))"

definition mask :: "string \<Rightarrow> string \<Rightarrow> (string \<Rightarrow> pyfloat) \<Rightarrow> bool" where
  "mask lat lon row \<longleftrightarrow>
     pf_ge (row lat) (Fin (dec 4102 2)) \<and> pf_le (row lat) (Fin (dec 4117 2)) \<and>
     pf_ge (row lon) (Fin (dec 1672 2)) \<and> pf_le (row lon) (Fin (dec 1708 2))"

definition df_bari :: "string \<Rightarrow> string \<Rightarrow> pyfloat frame \<Rightarrow> (string \<Rightarrow> pyfloat) list" where
  "df_bari lat lon df = filter (mask lat lon) (rows df)"

definition GRID_LAT :: rat where
  "GRID_LAT = dec 3 3"

definition GRID_LON :: rat where
  "GRID_LON = dec 4 3"

definition py_floor :: "pyfloat \<Rightarrow> error + int" where
  \<comment> \<open>\<^verbatim>\<open>math.floor\<close> raises ValueError on NaN\<close>
  "py_floor x = (case x of Fin a \<Rightarrow> Inr \<lfloor>a\<rfloor> | NaN \<Rightarrow> Inl ValueError)"

definition pf_div :: "pyfloat \<Rightarrow> rat \<Rightarrow> pyfloat" where
  \<comment> \<open>division by a non-zero constant\<close>
  "pf_div x c = (case x of Fin a \<Rightarrow> Fin (fdiv a c) | NaN \<Rightarrow> NaN)"

definition grid_coord :: "rat \<Rightarrow> pyfloat \<Rightarrow> error + rat" where
  \<comment> \<open>\<^verbatim>\<open>round(math.floor(v / step) * step, 4)\<close>; the integer is converted to a float
      for the product\<close>
  "grid_coord step v =
     (case py_floor (pf_div v step) of
        Inl e \<Rightarrow> Inl e
      | Inr n \<Rightarrow> Inr (round_nd 4 (fmul (fl (of_int n)) step)))"

definition grid_key :: "pyfloat \<Rightarrow> pyfloat \<Rightarrow> error + string" where
  "grid_key lat lon =
     (case grid_coord GRID_LAT lat of
        Inl e \<Rightarrow> Inl e
      | Inr glat \<Rightarrow>
          (case grid_coord GRID_LON lon of
             Inl e \<Rightarrow> Inl e
           | Inr glon \<Rightarrow> Inr (float_repr glat @ '','' @ float_repr glon)))"

fun grid_loop ::
  "string \<Rightarrow> string \<Rightarrow> (string \<Rightarrow> pyfloat) list \<Rightarrow> (string \<times> nat) list \<Rightarrow>
   error + (string \<times> nat) list"
where
  "grid_loop lat lon [] grid_counts = Inr grid_counts"
| "grid_loop lat lon (row # rest) grid_counts =
     (case grid_key (row lat) (row lon) of
        Inl e \<Rightarrow> Inl e
      | Inr key \<Rightarrow>
          grid_loop lat lon rest
            (AList.update key
               ((case map_of grid_counts key of None \<Rightarrow> 0 | Some n \<Rightarrow> n) + 1) grid_counts))"

fun points_loop ::
  "string \<Rightarrow> string \<Rightarrow> (string \<Rightarrow> pyfloat) list \<Rightarrow> (pyfloat \<times> pyfloat) list \<Rightarrow>
   (pyfloat \<times> pyfloat) list"
where
  "points_loop lat lon [] incident_points = incident_points"
| "points_loop lat lon (row # rest) incident_points =
     points_loop lat lon rest
       (incident_points @ [(np_round 5 (row lat), np_round 5 (row lon))])"

definition incident_stage ::
  "(string \<Rightarrow> string) \<Rightarrow> pyfloat frame \<Rightarrow>
   error + ((string \<times> nat) list \<times> (pyfloat \<times> pyfloat) list)"
where
  \<comment> \<open>section 2 of the script; \<^verbatim>\<open>max(grid_counts.values())\<close> raises ValueError when no
      point was retained\<close>
  "incident_stage lower df_2023 =
     (case lat_col lower df_2023 of
        Inl e \<Rightarrow> Inl e
      | Inr lat \<Rightarrow>
          (case lon_col lower df_2023 of
             Inl e \<Rightarrow> Inl e
           | Inr lon \<Rightarrow>
               (case grid_loop lat lon (df_bari lat lon df_2023) [] of
                  Inl e \<Rightarrow> Inl e
                | Inr grid_counts \<Rightarrow>
                    if grid_counts = [] then Inl ValueError
                    else Inr (grid_counts, points_loop lat lon (df_bari lat lon df_2023) []))))"

subsection \<open>Survey: response normalisation and neighbourhood scores\<close>

text \<open>
  A survey cell is a string or missing (\<open>None\<close>).  \<^verbatim>\<open>Series.map(dict)\<close> turns a cell
  into the number the dictionary gives it and into NaN otherwise; \<^verbatim>\<open>mean()\<close> skips NaN
  and is NaN when nothing is left: it replaces every NaN by 0, sums the whole column with
  NumPy's pairwise reduction and divides by the number of cells that were not NaN.
\<close>

definition Si_accented :: string where
  \<comment> \<open>the two letters S and i-grave; the second is the bytes C3 AC\<close>
  "Si_accented = [CHR ''S'', CHR 0xC3, CHR 0xAC]"

definition intensity_map :: "string \<rightharpoonup> rat" where
  "intensity_map =
     [''Molto'' \<mapsto> 1, ''Moltissimo'' \<mapsto> 1, ''Abbastanza'' \<mapsto> dec 7 1,
      ''Poco'' \<mapsto> dec 3 1, ''Per nulla'' \<mapsto> 0]"

definition yes_map :: "string \<rightharpoonup> rat" where
  "yes_map = [Si_accented \<mapsto> 1, ''No'' \<mapsto> 0, ''Si'' \<mapsto> 1]"

definition series_map :: "(string \<rightharpoonup> rat) \<Rightarrow> string option list \<Rightarrow> pyfloat list" where
  "series_map m vals =
     map (\<lambda>v. case v of None \<Rightarrow> NaN
               | Some s \<Rightarrow> (case m s of None \<Rightarrow> NaN | Some x \<Rightarrow> Fin x)) vals"

fun dropna :: "pyfloat list \<Rightarrow> rat list" where
  "dropna [] = []"
| "dropna (Fin a # xs) = a # dropna xs"
| "dropna (NaN # xs) = dropna xs"

function add8 :: "rat list \<Rightarrow> rat list \<Rightarrow> rat list" where
  \<comment> \<open>eight running sums: \<^verbatim>\<open>r[j] += a[i + j]\<close> for each full block of eight\<close>
  "add8 r a = (if length a < 8 then r else add8 (map2 fadd r (take 8 a)) (drop 8 a))"
  by pat_completeness auto
termination
  by (relation "measure (\<lambda>(r, a). length a)") auto

declare add8.simps [simp del]

definition block_sum :: "rat list \<Rightarrow> rat" where
  \<comment> \<open>a block of 8 to 128 numbers: eight running sums, combined as a tree, then the
      at most seven numbers left over\<close>
  "block_sum a =
     (let r = add8 (take 8 a) (drop 8 a);
          res = fadd (fadd (fadd (r ! 0) (r ! 1)) (fadd (r ! 2) (r ! 3)))
                     (fadd (fadd (r ! 4) (r ! 5)) (fadd (r ! 6) (r ! 7)))
      in foldl fadd res (drop (length a - length a mod 8) a))"

definition half8 :: "nat \<Rightarrow> nat" where
  \<comment> \<open>half of \<open>n\<close>, rounded down to a multiple of 8\<close>
  "half8 n = n div 2 - (n div 2) mod 8"

function pairwise_sum :: "rat list \<Rightarrow> rat" where
  \<comment> \<open>NumPy's sum of a contiguous array of doubles\<close>
  "pairwise_sum a =
     (if length a < 8 then foldl fadd 0 a
      else if length a \<le> 128 then block_sum a
      else fadd (pairwise_sum (take (half8 (length a)) a))
                (pairwise_sum (drop (half8 (length a)) a)))"
  by pat_completeness auto
termination
proof (relation "measure length")
  show "wf (measure length)" by simp
next
  fix a :: "rat list"
  assume "\<not> length a < 8" "\<not> length a \<le> 128"
  then show "(take (half8 (length a)) a, a) \<in> measure length"
    by (simp add: half8_def)
next
  fix a :: "rat list"
  assume "\<not> length a < 8" "\<not> length a \<le> 128"
  then have "0 < half8 (length a)" by (simp add: half8_def)
  then show "(drop (half8 (length a)) a, a) \<in> measure length"
    using \<open>\<not> length a < 8\<close> by simp
qed

declare pairwise_sum.simps [simp del]

definition fillna0 :: "pyfloat list \<Rightarrow> rat list" where
  "fillna0 xs = map (\<lambda>x. case x of Fin a \<Rightarrow> a | NaN \<Rightarrow> 0) xs"

definition series_mean :: "pyfloat list \<Rightarrow> pyfloat" where
  "series_mean xs =
     (let count = length (dropna xs) in
      if count = 0 then NaN
      else Fin (fdiv (pairwise_sum (fillna0 xs)) (fl (of_nat count))))"

definition normalize :: "(string \<rightharpoonup> rat) \<Rightarrow> string option list \<Rightarrow> pyfloat" where
  \<comment> \<open>\<^verbatim>\<open>x = group[col].map(m).mean(); round(x, 3) if not pd.isna(x) else 0.0\<close>\<close>
  "normalize m vals =
     (let x = series_mean (series_map m vals) in
      if \<not> isna x then np_round 3 x else Fin 0)"

definition quartiere_col :: "(string \<Rightarrow> string) \<Rightarrow> 'a frame \<Rightarrow> string list" where
  "quartiere_col lower df =
     filter (\<lambda>c. sublist ''quartiere_abita'' (lower c) \<or> sublist ''quale_quartiere'' (lower c))
       (columns df)"

definition problem_cols_yes :: "(string \<Rightarrow> string) \<Rightarrow> 'a frame \<Rightarrow> string list" where
  "problem_cols_yes lower df =
     filter (\<lambda>c. sublist ''problemiquartiere'' (lower c) \<and> sublist ''scala_1'' (lower c))
       (columns df)"

definition problem_cols_intensity :: "(string \<Rightarrow> string) \<Rightarrow> 'a frame \<Rightarrow> string list" where
  "problem_cols_intensity lower df =
     filter (\<lambda>c. sublist ''problemiquartiere'' (lower c) \<and> sublist ''scala_2'' (lower c))
       (columns df)"

definition problems :: "(string \<times> string) list" where
  \<comment> \<open>the six problem names with the token each is searched by\<close>
  "problems =
     [(''spaccio'', ''spaccio''), (''criminali'', ''criminal''), (''ragazzini'', ''ragazzini''),
      (''illuminazione'', ''illuminaz''), (''degrado_marciapiedi'', ''marciapiedi''),
      (''barboni'', ''barboni'')]"

definition key_problems :: "(string \<Rightarrow> string) \<Rightarrow> 'a frame \<Rightarrow> (string \<times> string list) list" where
  "key_problems lower df =
     map (\<lambda>(name, tok). (name, find_cols lower tok (problem_cols_yes lower df))) problems"

definition key_intensity :: "(string \<Rightarrow> string) \<Rightarrow> 'a frame \<Rightarrow> (string \<times> string list) list" where
  "key_intensity lower df =
     map (\<lambda>(name, tok). (name, find_cols lower tok (problem_cols_intensity lower df))) problems"

definition q_col :: "(string \<Rightarrow> string) \<Rightarrow> 'a frame \<Rightarrow> string option" where
  \<comment> \<open>the first quartiere column, else the first column that contains \<^verbatim>\<open>quartiere\<close>\<close>
  "q_col lower df =
     (case quartiere_col lower df of
        c # _ \<Rightarrow> Some c
      | [] \<Rightarrow> find (\<lambda>c. sublist ''quartiere'' (lower c)) (columns df))"

text \<open>
  A dictionary whose order reaches the document is an association list with distinct
  keys in insertion order: \<open>AList.update\<close> overwrites in place or appends, as a Python
  \<^verbatim>\<open>dict\<close> does, and \<open>map_of\<close> reads it.  The values of a score dictionary are floats
  and one integer (\<^verbatim>\<open>count\<close>).
\<close>

datatype jnum = JFloat pyfloat | JInt int

type_synonym scores = "(string \<times> jnum) list"

fun score_loop ::
  "string \<Rightarrow> (string \<rightharpoonup> rat) \<Rightarrow> (string \<Rightarrow> string option) list \<Rightarrow>
   (string \<times> string list) list \<Rightarrow> scores \<Rightarrow> scores"
where
  "score_loop sfx m grp [] scores = scores"
| "score_loop sfx m grp ((problem_name, cols) # rest) scores =
     score_loop sfx m grp rest
       (case cols of
          [] \<Rightarrow> scores
        | col # _ \<Rightarrow>
            AList.update (problem_name @ sfx)
              (JFloat (normalize m (map (\<lambda>row. row col) grp))) scores)"

definition weights :: "(string \<times> rat) list" where
  "weights =
     [(''spaccio_rate'', dec 25 2), (''criminali_rate'', dec 25 2),
      (''ragazzini_rate'', dec 15 2), (''illuminazione_rate'', dec 15 2),
      (''degrado_marciapiedi_rate'', dec 10 2), (''barboni_rate'', dec 10 2)]"

definition get_or_zero :: "scores \<Rightarrow> string \<Rightarrow> jnum" where
  \<comment> \<open>\<^verbatim>\<open>scores.get(k, 0)\<close>\<close>
  "get_or_zero scores k = (case map_of scores k of None \<Rightarrow> JInt 0 | Some v \<Rightarrow> v)"

definition times_weight :: "jnum \<Rightarrow> rat \<Rightarrow> pyfloat" where
  \<comment> \<open>\<^verbatim>\<open>v * w\<close> for a float \<open>w\<close>; an integer is converted to a float first\<close>
  "times_weight v w =
     (case v of JInt i \<Rightarrow> Fin (fmul (fl (of_int i)) w) | JFloat x \<Rightarrow> pf_mul x (Fin w))"

definition py_sum :: "pyfloat list \<Rightarrow> pyfloat" where
  \<comment> \<open>\<^verbatim>\<open>sum\<close> adds from the left, starting at 0\<close>
  "py_sum xs = foldl pf_add (Fin 0) xs"

definition risk :: "scores \<Rightarrow> pyfloat" where
  "risk scores = py_sum (map (\<lambda>(k, w). times_weight (get_or_zero scores k) w) weights)"

definition group_scores ::
  "(string \<Rightarrow> string) \<Rightarrow> string option frame \<Rightarrow> (string \<Rightarrow> string option) list \<Rightarrow> scores"
where
  \<comment> \<open>the body of the loop over the groups; \<^verbatim>\<open>risk\<close> is a \<^verbatim>\<open>numpy.float64\<close> as soon as one
      rate came from a mean, and the Python float 0.0 otherwise, which both meanings of
      \<^verbatim>\<open>round\<close> leave as it is\<close>
  "group_scores lower df grp =
     (let scores = score_loop ''_rate'' yes_map grp (key_problems lower df) [];
          scores = score_loop ''_intensity'' intensity_map grp (key_intensity lower df) scores;
          scores = AList.update ''risk_score'' (JFloat (np_round 3 (risk scores))) scores
      in AList.update ''count'' (JInt (int (length grp))) scores)"

definition group_keys :: "string option frame \<Rightarrow> string \<Rightarrow> string list" where
  \<comment> \<open>\<^verbatim>\<open>groupby\<close> yields the distinct labels in sorted order and drops missing ones\<close>
  "group_keys df q = sort (remdups (List.map_filter (\<lambda>row. row q) (rows df)))"

definition neighborhood_scores ::
  "(string \<Rightarrow> string) \<Rightarrow> string option frame \<Rightarrow> string \<Rightarrow> (string \<times> scores) list"
where
  "neighborhood_scores lower df q =
     map (\<lambda>quartiere.
            (quartiere, group_scores lower df (filter (\<lambda>row. row q = Some quartiere) (rows df))))
       (group_keys df q)"

definition survey_stage ::
  "(string \<Rightarrow> string) \<Rightarrow> string option frame \<Rightarrow> error + (string \<times> scores) list"
where
  \<comment> \<open>section 1 of the script; \<^verbatim>\<open>df[None]\<close> raises KeyError when no column was found\<close>
  "survey_stage lower df =
     (case q_col lower df of
        None \<Rightarrow> Inl KeyError
      | Some q \<Rightarrow> Inr (neighborhood_scores lower df q))"

subsection \<open>Streets of 2017\<close>

definition street_col :: "(string \<Rightarrow> string) \<Rightarrow> 'a frame \<Rightarrow> error + string" where
  "street_col lower df = first (find_cols lower ''denominaz'' (columns df))"

definition value_counts :: "'a option list \<Rightarrow> ('a option \<rightharpoonup> nat)" where
  \<comment> \<open>\<^verbatim>\<open>Series.value_counts().to_dict()\<close>: each value that occurs, with the number of its
      occurrences; missing values are not counted\<close>
  "value_counts xs =
     (\<lambda>k. case k of
            None \<Rightarrow> None
          | Some s \<Rightarrow> if Some s \<in> set xs then Some (count_list xs (Some s)) else None)"

definition street_danger :: "('a option \<rightharpoonup> nat) \<Rightarrow> ('a option \<rightharpoonup> nat)" where
  \<comment> \<open>\<^verbatim>\<open>{k: v for k, v in street_incidents.items() if v >= 2 and pd.notna(k)}\<close>\<close>
  "street_danger street_incidents =
     (\<lambda>k. case street_incidents k of
            None \<Rightarrow> None
          | Some v \<Rightarrow> if 2 \<le> v \<and> k \<noteq> None then Some v else None)"

definition street_stage ::
  "(string \<Rightarrow> string) \<Rightarrow> string option frame \<Rightarrow> error + (string option \<rightharpoonup> nat)"
where
  "street_stage lower df_2017 =
     (case street_col lower df_2017 of
        Inl e \<Rightarrow> Inl e
      | Inr c \<Rightarrow> Inr (street_danger (value_counts (map (\<lambda>row. row c) (rows df_2017)))))"

subsection \<open>Unsafe places, the document and the run\<close>

definition unsafe_places :: "(string \<Rightarrow> string) \<Rightarrow> string option frame \<Rightarrow> (string \<times> nat) list" where
  \<comment> \<open>per column, the number of rows whose cell is \<^verbatim>\<open>Selezionato\<close>\<close>
  "unsafe_places lower df =
     map (\<lambda>col. (col, length (filter (\<lambda>row. row col = Some ''Selezionato'') (rows df))))
       (find_cols lower ''luoghiinsicurezza'' (columns df))"

record document =
  neighborhoodScores :: "(string \<times> scores) list"
  incidentGrid :: "(string \<times> nat) list"
  gridConfig :: "(string \<times> rat) list"
  dangerousStreets :: "string option \<rightharpoonup> nat"
  incidentPoints2023 :: "(pyfloat \<times> pyfloat) list"

definition build ::
  "(string \<Rightarrow> string) \<Rightarrow> string option frame \<Rightarrow> pyfloat frame \<Rightarrow> string option frame \<Rightarrow>
   error + ((string \<times> nat) list \<times> document)"
where
  \<comment> \<open>sections 1 to 5 in the script's order, up to the assembled document; the first
      component is the tally of section 4, which is only printed\<close>
  "build lower df df_2023 df_2017 =
     (case survey_stage lower df of
        Inl e \<Rightarrow> Inl e
      | Inr n_scores \<Rightarrow>
          (case incident_stage lower df_2023 of
             Inl e \<Rightarrow> Inl e
           | Inr (grid_counts, incident_points) \<Rightarrow>
               (case street_stage lower df_2017 of
                  Inl e \<Rightarrow> Inl e
                | Inr s_danger \<Rightarrow>
                    Inr (unsafe_places lower df,
                         \<lparr>neighborhoodScores = n_scores,
                          incidentGrid = grid_counts,
                          gridConfig = [(''latStep'', GRID_LAT), (''lonStep'', GRID_LON)],
                          dangerousStreets = s_danger,
                          incidentPoints2023 = take 500 incident_points\<rparr>))))"

definition run ::
  "(string \<Rightarrow> string) \<Rightarrow> string option frame \<Rightarrow> pyfloat frame \<Rightarrow> string option frame \<Rightarrow>
   document option \<Rightarrow> (error + (string \<times> nat) list) \<times> document option"
where
  \<comment> \<open>the whole script on a file system whose output file holds \<open>file\<close> (\<open>None\<close>: no such
      file): the result is the exception or the printed tally, with the file afterwards\<close>
  "run lower df df_2023 df_2017 file =
     (case build lower df df_2023 df_2017 of
        Inl e \<Rightarrow> (Inl e, file)
      | Inr (tally, doc) \<Rightarrow> (Inr tally, Some doc))"

subsection \<open>Notions used in the statements\<close>

definition in_box :: "pyfloat \<Rightarrow> pyfloat \<Rightarrow> bool" where
  \<comment> \<open>the closed box of the specification, on doubles: latitude in \<open>[41.02, 41.17]\<close> and
      longitude in \<open>[16.72, 17.08]\<close>\<close>
  "in_box lat lon =
     (case (lat, lon) of
        (Fin a, Fin b) \<Rightarrow>
          dec 4102 2 \<le> a \<and> a \<le> dec 4117 2 \<and> dec 1672 2 \<le> b \<and> b \<le> dec 1708 2
      | _ \<Rightarrow> False)"

definition count_of :: "scores \<Rightarrow> int" where
  \<comment> \<open>the \<^verbatim>\<open>count\<close> field of an emitted score dictionary\<close>
  "count_of sc = (case map_of sc ''count'' of Some (JInt n) \<Rightarrow> n | _ \<Rightarrow> 0)"

definition mapped_values :: "(string \<rightharpoonup> rat) \<Rightarrow> string option list \<Rightarrow> rat list" where
  \<comment> \<open>the numbers of the cells that the lookup table maps, in row order\<close>
  "mapped_values m vals = List.map_filter (\<lambda>v. case v of None \<Rightarrow> None | Some s \<Rightarrow> m s) vals"

definition summands :: "(string \<rightharpoonup> rat) \<Rightarrow> string option list \<Rightarrow> rat list" where
  \<comment> \<open>the column as it is summed: the number of each mapped cell in its place, 0 in the
      place of every other cell\<close>
  "summands m vals =
     map (\<lambda>v. case v of None \<Rightarrow> 0 | Some s \<Rightarrow> (case m s of None \<Rightarrow> 0 | Some x \<Rightarrow> x)) vals"

definition float_mean :: "(string \<rightharpoonup> rat) \<Rightarrow> string option list \<Rightarrow> rat" where
  \<comment> \<open>the arithmetic mean of the mapped values in double arithmetic: their pairwise sum
      divided by their number\<close>
  "float_mean m vals =
     fdiv (pairwise_sum (summands m vals)) (fl (of_nat (length (mapped_values m vals))))"

definition score_floats :: "scores \<Rightarrow> pyfloat list" where
  "score_floats sc = concat (map (\<lambda>(k, v). case v of JFloat x \<Rightarrow> [x] | JInt _ \<Rightarrow> []) sc)"

definition document_floats :: "document \<Rightarrow> pyfloat list" where
  \<comment> \<open>every float of a document\<close>
  "document_floats doc =
     concat (map (\<lambda>(k, sc). score_floats sc) (neighborhoodScores doc)) @
     map (\<lambda>(k, x). Fin x) (gridConfig doc) @
     concat (map (\<lambda>(a, b). [a, b]) (incidentPoints2023 doc))"

definition fin_scores :: "scores \<Rightarrow> bool" where
  \<comment> \<open>every value is a finite float\<close>
  "fin_scores sc \<longleftrightarrow> (\<forall>(k, v) \<in> set sc. \<exists>r. v = JFloat (Fin r))"

definition scored_columns :: "(string \<Rightarrow> string) \<Rightarrow> 'a frame \<Rightarrow> string list" where
  \<comment> \<open>the survey columns whose cells the scores are computed from: the neighbourhood
      column and the first resolved yes/no and intensity column of each problem\<close>
  "scored_columns lower df =
     (case q_col lower df of None \<Rightarrow> [] | Some q \<Rightarrow> [q]) @
     concat (map (\<lambda>(name, cols). take 1 cols) (key_problems lower df @ key_intensity lower df))"

definition agree_on :: "string list \<Rightarrow> (string \<Rightarrow> 'a) list \<Rightarrow> (string \<Rightarrow> 'a) list \<Rightarrow> bool" where
  \<comment> \<open>two lists of rows agree, row by row, on the columns \<open>cs\<close>\<close>
  "agree_on cs rs rs' = list_all2 (\<lambda>row row'. \<forall>c \<in> set cs. row c = row' c) rs rs'"

definition fexp :: "rat \<Rightarrow> int" where
  \<comment> \<open>the exponent \<open>fl\<close> rounds at\<close>
  "fexp x = max (ilog2 \<bar>x\<bar>) (- 1022)"

definition rate_field :: "scores \<Rightarrow> string \<Rightarrow> pyfloat" where
  \<comment> \<open>a rate field of a score dictionary; an absent field counts as 0\<close>
  "rate_field sc k = (case map_of sc k of Some (JFloat x) \<Rightarrow> x | _ \<Rightarrow> Fin 0)"

definition rate_keys :: "string list" where
  "rate_keys =
     [''spaccio_rate'', ''criminali_rate'', ''ragazzini_rate'', ''illuminazione_rate'',
      ''degrado_marciapiedi_rate'', ''barboni_rate'']"

definition weighted_sum :: "scores \<Rightarrow> pyfloat" where
  \<comment> \<open>the documented weighted sum of the six rate fields, added from the left\<close>
  "weighted_sum sc =
     foldl pf_add (Fin 0)
       [pf_mul (rate_field sc ''spaccio_rate'') (Fin (dec 25 2)),
        pf_mul (rate_field sc ''criminali_rate'') (Fin (dec 25 2)),
        pf_mul (rate_field sc ''ragazzini_rate'') (Fin (dec 15 2)),
        pf_mul (rate_field sc ''illuminazione_rate'') (Fin (dec 15 2)),
        pf_mul (rate_field sc ''degrado_marciapiedi_rate'') (Fin (dec 10 2)),
        pf_mul (rate_field sc ''barboni_rate'') (Fin (dec 10 2))]"

subsection \<open>Example inputs\<close>

text \<open>
  Concrete tables on which the theorems below are instantiated.  On ASCII strings
  \<^verbatim>\<open>str.lower\<close> is \<open>ascii_lower\<close>.
\<close>

definition ascii_lower :: "string \<Rightarrow> string" where
  "ascii_lower s =
     map (\<lambda>c. case map_of (zip ''ABCDEFGHIJKLMNOPQRSTUVWXYZ'' ''abcdefghijklmnopqrstuvwxyz'') c of
               None \<Rightarrow> c | Some l \<Rightarrow> l) s"

definition example_streets :: "string option frame" where
  "example_streets =
     \<lparr>columns = [''Denominazione''],
      rows = [(\<lambda>_. Some ''Via A''), (\<lambda>_. Some ''Via A''), (\<lambda>_. Some ''Via B''), (\<lambda>_. None)]\<rparr>"

definition example_incidents :: "pyfloat frame" where
  "example_incidents =
     \<lparr>columns = [''Latitudine'', ''Longitudine''],
      rows = [(\<lambda>_. NaN)(''Latitudine'' := Fin (dec 41171 3), ''Longitudine'' := Fin (dec 1708 2)),
              (\<lambda>_. NaN)(''Latitudine'' := Fin (dec 4102 2), ''Longitudine'' := Fin (dec 1672 2)),
              (\<lambda>_. NaN)(''Longitudine'' := Fin (dec 1680 2)),
              (\<lambda>_. NaN)(''Latitudine'' := Fin (dec 4116 2), ''Longitudine'' := Fin (dec 1680 2))]\<rparr>"

definition example_survey :: "string option frame" where
  "example_survey =
     \<lparr>columns = [''Quale_quartiere_abita'', ''ProblemiQuartiere_spaccio_scala_1'',
                 ''ProblemiQuartiere_spaccio_scala_2'', ''LuoghiInsicurezza_parco''],
      rows =
        [(\<lambda>_. None)(''Quale_quartiere_abita'' := Some ''A'',
            ''ProblemiQuartiere_spaccio_scala_1'' := Some Si_accented,
            ''ProblemiQuartiere_spaccio_scala_2'' := Some ''Abbastanza'',
            ''LuoghiInsicurezza_parco'' := Some ''Selezionato''),
         (\<lambda>_. None)(''Quale_quartiere_abita'' := Some ''B'',
            ''ProblemiQuartiere_spaccio_scala_1'' := Some ''Forse''),
         (\<lambda>_. None)(''Quale_quartiere_abita'' := Some ''A'',
            ''ProblemiQuartiere_spaccio_scala_1'' := Some ''Si'',
            ''ProblemiQuartiere_spaccio_scala_2'' := Some ''Poco''),
         (\<lambda>_. None)(''ProblemiQuartiere_spaccio_scala_1'' := Some ''No''),
         (\<lambda>_. None)(''Quale_quartiere_abita'' := Some ''A'',
            ''ProblemiQuartiere_spaccio_scala_1'' := Some ''No'',
            ''ProblemiQuartiere_spaccio_scala_2'' := Some ''boh'')]\<rparr>"

definition example_scores :: "(string \<times> scores) list" where
  "example_scores =
     [(''A'', [(''spaccio_rate'', JFloat (Fin (dec 667 3))),
              (''spaccio_intensity'', JFloat (Fin (dec 5 1))),
              (''risk_score'', JFloat (Fin (dec 167 3))),
              (''count'', JInt 3)]),
      (''B'', [(''spaccio_rate'', JFloat (Fin 0)),
              (''spaccio_intensity'', JFloat (Fin 0)),
              (''risk_score'', JFloat (Fin 0)),
              (''count'', JInt 1)])]"

definition example_document :: document where
  "example_document =
     \<lparr>neighborhoodScores = example_scores,
      incidentGrid = [(''41.019,16.72'', 1), (''41.157,16.8'', 1)],
      gridConfig = [(''latStep'', GRID_LAT), (''lonStep'', GRID_LON)],
      dangerousStreets =
        street_danger (value_counts [Some ''Via A'', Some ''Via A'', Some ''Via B'', None]),
      incidentPoints2023 =
        [(Fin (dec 4102 2), Fin (dec 1672 2)), (Fin (dec 4116 2), Fin (dec 168 1))]\<rparr>"

definition example_no_latitude :: "pyfloat frame" where
  "example_no_latitude = \<lparr>columns = [''Longitudine'', ''Data''], rows = [(\<lambda>_. Fin 17)]\<rparr>"

definition example_no_longitude :: "pyfloat frame" where
  "example_no_longitude = \<lparr>columns = [''Latitudine'', ''Data''], rows = [(\<lambda>_. Fin 41)]\<rparr>"

definition example_no_street :: "string option frame" where
  "example_no_street = \<lparr>columns = [''Via'', ''Data''], rows = [(\<lambda>_. Some ''Via A'')]\<rparr>"

definition example_survey_unselected :: "string option frame" where
  \<comment> \<open>\<open>example_survey\<close> with the one selected unsafe place cleared\<close>
  "example_survey_unselected =
     \<lparr>columns = columns example_survey,
      rows = map (\<lambda>row. row(''LuoghiInsicurezza_parco'' := None)) (rows example_survey)\<rparr>"

definition example_overlap :: "string \<Rightarrow> string option frame" where
  \<comment> \<open>a survey whose unsafe-place column is also the yes/no column of \<^verbatim>\<open>spaccio\<close>\<close>
  "example_overlap answer =
     \<lparr>columns = [''quartiere_abita'', ''luoghiinsicurezza_problemiquartiere_spaccio_scala_1''],
      rows = [(\<lambda>_. None)(''quartiere_abita'' := Some ''A'',
                ''luoghiinsicurezza_problemiquartiere_spaccio_scala_1'' := Some answer)]\<rparr>"

definition example_twenty :: "string option frame" where
  \<comment> \<open>twenty respondents of one neighbourhood, one of whom answers yes\<close>
  "example_twenty =
     \<lparr>columns = [''quartiere_abita'', ''problemiquartiere_spaccio_scala_1''],
      rows =
        (\<lambda>_. None)(''quartiere_abita'' := Some ''A'',
           ''problemiquartiere_spaccio_scala_1'' := Some ''Si'') #
        replicate 19
          ((\<lambda>_. None)(''quartiere_abita'' := Some ''A'',
             ''problemiquartiere_spaccio_scala_1'' := Some ''No''))\<rparr>"


section \<open>Properties\<close>

subsection \<open>Street ranking\<close>

lemma count_list_pos: "0 < count_list xs k \<longleftrightarrow> k \<in> set xs"
  by (induction xs) auto

lemma street_danger_value_counts:
  "street_danger (value_counts xs) k = Some n \<longleftrightarrow>
     (\<exists>s. k = Some s) \<and> n = count_list xs k \<and> 2 \<le> n"
  using count_list_pos [of xs k]
  by (cases k) (auto simp: street_danger_def value_counts_def)

lemma example_streets_cols:
  "find_cols ascii_lower ''denominaz'' [''Denominazione''] = [''Denominazione'']"
  by code_simp

lemma example_streets_stage:
  "street_stage ascii_lower example_streets =
     Inr (street_danger (value_counts [Some ''Via A'', Some ''Via A'', Some ''Via B'', None]))"
  by (simp add: street_stage_def street_col_def example_streets_cols example_streets_def first_def)

text \<open>
  C6: whenever the street stage succeeds, \<^verbatim>\<open>dangerousStreets\<close> holds exactly the
  non-missing street names that occur at least twice in the resolved column, each with
  the number of its occurrences.  A name occurring twice is in, a name occurring once is
  out, and no entry has a missing name.
\<close>

theorem dangerous_streets_exact:
  assumes "street_stage lower df_2017 = Inr sd"
  shows "\<exists>c. street_col lower df_2017 = Inr c \<and>
           (\<forall>k n. sd k = Some n \<longleftrightarrow>
              (\<exists>s. k = Some s) \<and> n = count_list (map (\<lambda>row. row c) (rows df_2017)) k \<and> 2 \<le> n)"
proof (cases "street_col lower df_2017")
  case (Inl e)
  with assms show ?thesis by (simp add: street_stage_def)
next
  case (Inr c)
  with assms have "sd = street_danger (value_counts (map (\<lambda>row. row c) (rows df_2017)))"
    by (simp add: street_stage_def)
  with Inr show ?thesis by (simp add: street_danger_value_counts)
qed

theorem dangerous_streets_exact_witness:
  "\<exists>sd. street_stage ascii_lower example_streets = Inr sd \<and>
     sd (Some ''Via A'') = Some 2 \<and> sd (Some ''Via B'') = None \<and> sd None = None"
proof -
  let ?sd = "street_danger (value_counts [Some ''Via A'', Some ''Via A'', Some ''Via B'', None])"
  from dangerous_streets_exact [OF example_streets_stage]
  obtain c where c: "street_col ascii_lower example_streets = Inr c"
    and eq: "\<And>k n. ?sd k = Some n \<longleftrightarrow>
       (\<exists>s. k = Some s) \<and> n = count_list (map (\<lambda>row. row c) (rows example_streets)) k \<and> 2 \<le> n"
    by blast
  have rows: "map (\<lambda>row. row c) (rows example_streets) =
      [Some ''Via A'', Some ''Via A'', Some ''Via B'', None]"
    by (simp add: example_streets_def)
  have "?sd (Some ''Via A'') = Some 2" by (simp add: eq rows)
  moreover have "?sd (Some ''Via B'') = None"
  proof (cases "?sd (Some ''Via B'')")
    case (Some n)
    then show ?thesis using eq [of "Some ''Via B''" n] by (auto simp: rows)
  qed simp
  moreover have "?sd None = None"
  proof (cases "?sd None")
    case (Some n)
    then show ?thesis using eq [of None n] by simp
  qed simp
  ultimately show ?thesis using example_streets_stage by simp
qed

subsection \<open>Bounding box\<close>

lemma mask_in_box: "mask lat lon row = in_box (row lat) (row lon)"
  by (auto simp: mask_def in_box_def pf_ge_def pf_le_def split: pyfloat.splits)

lemma in_box_NaN: "\<not> in_box NaN x" "\<not> in_box x NaN"
  by (simp_all add: in_box_def split: pyfloat.splits)

lemma box_consts:
  "dec 4102 2 = 5773051772335555 / 140737488355328"
  "dec 4117 2 = 2897081197794427 / 70368744177664"
  "dec 1672 2 = 588282701325271 / 35184372088832"
  "dec 1708 2 = 1201898150554501 / 70368744177664"
  "dec 41171 3 = 5794303133077209 / 140737488355328"
  "dec 4116 2 = 1448188755176325 / 35184372088832"
  "dec 1680 2 = 4728779608739021 / 281474976710656"
  by code_simp+

text \<open>
  C4: the rows kept by the spatial filter are exactly the rows of the table, in their
  order, whose latitude and longitude are numbers inside the closed box
  \<open>[41.02, 41.17] \<times> [16.72, 17.08]\<close>.  Both corners of the box are inside, so all four
  bounds are inclusive; the point \<open>(41.171, 17.08)\<close> is outside, and so is every row with
  a missing coordinate.
\<close>

theorem bounding_box_closed:
  "df_bari lat lon df = filter (\<lambda>row. in_box (row lat) (row lon)) (rows df) \<and>
   in_box (Fin (dec 4102 2)) (Fin (dec 1672 2)) \<and>
   in_box (Fin (dec 4117 2)) (Fin (dec 1708 2)) \<and>
   \<not> in_box (Fin (dec 41171 3)) (Fin (dec 1708 2)) \<and>
   \<not> in_box NaN x \<and> \<not> in_box x NaN"
proof -
  have "df_bari lat lon df = filter (\<lambda>row. in_box (row lat) (row lon)) (rows df)"
    by (simp add: df_bari_def mask_in_box [abs_def])
  moreover have "in_box (Fin (dec 4102 2)) (Fin (dec 1672 2))"
    "in_box (Fin (dec 4117 2)) (Fin (dec 1708 2))"
    "\<not> in_box (Fin (dec 41171 3)) (Fin (dec 1708 2))"
    by (simp_all add: in_box_def box_consts)
  ultimately show ?thesis by (simp add: in_box_NaN)
qed

theorem bounding_box_closed_witness:
  "map (\<lambda>row. (row ''Latitudine'', row ''Longitudine''))
     (df_bari ''Latitudine'' ''Longitudine'' example_incidents) =
   [(Fin (dec 4102 2), Fin (dec 1672 2)), (Fin (dec 4116 2), Fin (dec 1680 2))]"
  using bounding_box_closed [of "''Latitudine''" "''Longitudine''" example_incidents]
  by (simp add: example_incidents_def in_box_def box_consts)

subsection \<open>The example run\<close>

lemma example_survey_stage: "survey_stage ascii_lower example_survey = Inr example_scores"
  by code_simp

lemma example_incident_stage:
  "incident_stage ascii_lower example_incidents =
     Inr ([(''41.019,16.72'', 1), (''41.157,16.8'', 1)],
          [(Fin (dec 4102 2), Fin (dec 1672 2)), (Fin (dec 4116 2), Fin (dec 168 1))])"
  by code_simp

lemma example_unsafe_places:
  "unsafe_places ascii_lower example_survey = [(''LuoghiInsicurezza_parco'', 1)]"
  by code_simp

lemma example_build:
  "build ascii_lower example_survey example_incidents example_streets =
     Inr ([(''LuoghiInsicurezza_parco'', 1)], example_document)"
  by (simp add: build_def example_survey_stage example_incident_stage example_streets_stage
      example_unsafe_places example_document_def)

subsection \<open>Incident points\<close>

lemma points_loop_append:
  "points_loop lat lon rs acc = acc @ map (\<lambda>row. (np_round 5 (row lat), np_round 5 (row lon))) rs"
  by (induction rs arbitrary: acc) auto

lemma incident_stage_InrD:
  assumes "incident_stage lower df = Inr (g, pts)"
  shows "\<exists>lat lon. lat_col lower df = Inr lat \<and> lon_col lower df = Inr lon \<and>
           grid_loop lat lon (df_bari lat lon df) [] = Inr g \<and> g \<noteq> [] \<and>
           pts = points_loop lat lon (df_bari lat lon df) []"
  using assms by (auto simp: incident_stage_def split: sum.splits if_splits)

lemma build_InrD:
  assumes "build lower df df_2023 df_2017 = Inr (tally, doc)"
  shows "\<exists>ns g pts sd. survey_stage lower df = Inr ns \<and>
           incident_stage lower df_2023 = Inr (g, pts) \<and>
           street_stage lower df_2017 = Inr sd \<and> tally = unsafe_places lower df \<and>
           doc = \<lparr>neighborhoodScores = ns, incidentGrid = g,
                  gridConfig = [(''latStep'', GRID_LAT), (''lonStep'', GRID_LON)],
                  dangerousStreets = sd, incidentPoints2023 = take 500 pts\<rparr>"
  using assms by (auto simp: build_def split: sum.splits prod.splits)





subsection \<open>Groups and respondent counts\<close>

lemma count_of_group_scores: "count_of (group_scores lower df grp) = int (length grp)"
  by (simp add: count_of_def group_scores_def Let_def update_conv)

lemma sum_group_sizes:
  assumes "finite K" "\<forall>r \<in> set rs. \<forall>k. f r = Some k \<longrightarrow> k \<in> K"
  shows "(\<Sum>k\<in>K. length (filter (\<lambda>r. f r = Some k) rs)) = length (filter (\<lambda>r. f r \<noteq> None) rs)"
  using assms(2)
proof (induction rs)
  case Nil
  then show ?case by simp
next
  case (Cons r rs)
  show ?case
  proof (cases "f r")
    case None
    with Cons show ?thesis by simp
  next
    case (Some k0)
    with Cons.prems have k0: "k0 \<in> K" by simp
    have "(\<Sum>k\<in>K. length (filter (\<lambda>r. f r = Some k) (r # rs))) =
          (\<Sum>k\<in>K. (if k = k0 then 1 else 0) + length (filter (\<lambda>r. f r = Some k) rs))"
      using Some by (intro sum.cong) auto
    also have "\<dots> = 1 + (\<Sum>k\<in>K. length (filter (\<lambda>r. f r = Some k) rs))"
      using assms(1) k0 by (simp add: sum.distrib)
    finally show ?thesis using Cons Some by simp
  qed
qed

lemma set_group_keys: "set (group_keys df q) = {k. \<exists>row \<in> set (rows df). row q = Some k}"
  by (force simp: group_keys_def List.map_filter_def)

lemma distinct_group_keys: "distinct (group_keys df q)"
  by (simp add: group_keys_def)

lemma sum_list_int_length: "(\<Sum>k\<leftarrow>ks. int (g k)) = int (\<Sum>k\<leftarrow>ks. g k)"
  by (induction ks) auto

lemma sum_counts:
  "(\<Sum>(k, sc)\<leftarrow>neighborhood_scores lower df q. count_of sc) =
     int (length (filter (\<lambda>row. row q \<noteq> None) (rows df)))"
proof -
  have "(\<Sum>(k, sc)\<leftarrow>neighborhood_scores lower df q. count_of sc) =
        (\<Sum>k\<leftarrow>group_keys df q. int (length (filter (\<lambda>row. row q = Some k) (rows df))))"
    by (simp add: neighborhood_scores_def comp_def count_of_group_scores)
  also have "\<dots> = int (\<Sum>k\<leftarrow>group_keys df q. length (filter (\<lambda>row. row q = Some k) (rows df)))"
    by (rule sum_list_int_length)
  also have "(\<Sum>k\<leftarrow>group_keys df q. length (filter (\<lambda>row. row q = Some k) (rows df))) =
      (\<Sum>k\<in>set (group_keys df q). length (filter (\<lambda>row. row q = Some k) (rows df)))"
    by (rule sum_list_distinct_conv_sum_set) (rule distinct_group_keys)
  also have "\<dots> = length (filter (\<lambda>row. row q \<noteq> None) (rows df))"
  proof (rule sum_group_sizes)
    show "finite (set (group_keys df q))" by simp
    show "\<forall>r\<in>set (rows df). \<forall>k. r q = Some k \<longrightarrow> k \<in> set (group_keys df q)"
      unfolding set_group_keys by blast
  qed
  finally show ?thesis .
qed


lemma survey_stage_InrD:
  assumes "survey_stage lower df = Inr ns"
  shows "\<exists>q. q_col lower df = Some q \<and> ns = neighborhood_scores lower df q"
  using assms by (auto simp: survey_stage_def split: option.splits)

text \<open>
  C9: when the survey stage succeeds, the neighbourhoods of the result are exactly the
  distinct labels that occur in the resolved column, each once; the \<^verbatim>\<open>count\<close> of a
  neighbourhood is the number of rows carrying its label; and the counts add up to the
  number of rows whose label is not missing.  A row with a missing label is therefore in
  no group and in no count.
\<close>

theorem missing_label_in_no_group:
  assumes "survey_stage lower df = Inr ns"
  shows "\<exists>q. q_col lower df = Some q \<and>
           set (map fst ns) = {k. \<exists>row \<in> set (rows df). row q = Some k} \<and>
           distinct (map fst ns) \<and>
           (\<forall>(k, sc) \<in> set ns.
              count_of sc = int (length (filter (\<lambda>row. row q = Some k) (rows df)))) \<and>
           (\<Sum>(k, sc)\<leftarrow>ns. count_of sc) =
             int (length (filter (\<lambda>row. row q \<noteq> None) (rows df)))"
proof -
  from survey_stage_InrD [OF assms] obtain q where
    q: "q_col lower df = Some q" and ns: "ns = neighborhood_scores lower df q"
    by blast
  have "map fst ns = group_keys df q"
    by (simp add: ns neighborhood_scores_def comp_def)
  moreover have "\<forall>(k, sc) \<in> set ns.
      count_of sc = int (length (filter (\<lambda>row. row q = Some k) (rows df)))"
    by (auto simp: ns neighborhood_scores_def count_of_group_scores)
  ultimately show ?thesis
    using q sum_counts [of lower df q] set_group_keys [of df q] distinct_group_keys [of df q]
    by (auto simp: ns)
qed


theorem missing_label_in_no_group_witness:
  "survey_stage ascii_lower example_survey = Inr example_scores \<and>
   (\<Sum>(k, sc)\<leftarrow>example_scores. count_of sc) = 4 \<and>
   length (filter (\<lambda>row. row ''Quale_quartiere_abita'' \<noteq> None) (rows example_survey)) = 4 \<and>
   length (rows example_survey) = 5"
proof -
  have q: "q_col ascii_lower example_survey = Some ''Quale_quartiere_abita''"
    by code_simp
  have "length (filter (\<lambda>row. row ''Quale_quartiere_abita'' \<noteq> None) (rows example_survey)) = 4"
    "length (rows example_survey) = 5"
    by (simp_all add: example_survey_def)
  with missing_label_in_no_group [OF example_survey_stage] q show ?thesis
    using example_survey_stage by auto
qed

subsection \<open>Response normaliser and score fields\<close>

lemma dropna_series_map: "dropna (series_map m vals) = mapped_values m vals"
  by (induction vals)
    (auto simp: series_map_def mapped_values_def List.map_filter_def split: option.splits)

lemma fillna0_series_map: "fillna0 (series_map m vals) = summands m vals"
  by (simp add: fillna0_def series_map_def summands_def split: option.splits)


lemma normalize_eq:
  "normalize m vals =
     (if mapped_values m vals = [] then Fin 0
      else Fin (round_np 3 (float_mean m vals)))"
  by (simp add: normalize_def series_mean_def dropna_series_map fillna0_series_map Let_def
      isna_def np_round_def float_mean_def)

lemma mapped_values_Nil:
  "mapped_values m vals = [] \<longleftrightarrow> (\<forall>v \<in> set vals. v = None \<or> (\<exists>s. v = Some s \<and> m s = None))"
  by (induction vals) (auto simp: mapped_values_def List.map_filter_def split: option.splits)



lemma score_loop_other:
  "key \<notin> (\<lambda>(name, cols). name @ sfx) ` set kps \<Longrightarrow>
     map_of (score_loop sfx m grp kps sc) key = map_of sc key"
  by (induction kps arbitrary: sc) (auto simp: update_conv split: list.splits)

lemma score_loop_lookup:
  "(name, cols) \<in> set kps \<Longrightarrow> distinct (map fst kps) \<Longrightarrow>
     map_of (score_loop sfx m grp kps sc) (name @ sfx) =
       (case cols of
          [] \<Rightarrow> map_of sc (name @ sfx)
        | col # _ \<Rightarrow> Some (JFloat (normalize m (map (\<lambda>row. row col) grp))))"
proof (induction kps arbitrary: sc)
  case Nil
  then show ?case by simp
next
  case (Cons p kps)
  obtain n cs where p: "p = (n, cs)" by (cases p)
  show ?case
  proof (cases "(name, cols) = p")
    case True
    with Cons.prems p have "name @ sfx \<notin> (\<lambda>(name, cols). name @ sfx) ` set kps"
      by (force simp: image_iff)
    with True p show ?thesis
      by (auto simp: score_loop_other update_conv split: list.splits)
  next
    case False
    with Cons.prems p have "(name, cols) \<in> set kps" "distinct (map fst kps)" "n \<noteq> name"
      by (force simp: image_iff)+
    with Cons.IH [of _] p show ?thesis
      by (auto simp: update_conv split: list.splits)
  qed
qed


lemma key_problems_names: "map fst (key_problems lower df) = map fst problems"
  "map fst (key_intensity lower df) = map fst problems"
  by (simp_all add: key_problems_def key_intensity_def comp_def case_prod_unfold)

lemma distinct_problems: "distinct (map fst problems)"
  by (simp add: problems_def)

lemma key_problems_mem:
  "(name, tok) \<in> set problems \<Longrightarrow>
     (name, find_cols lower tok (problem_cols_yes lower df)) \<in> set (key_problems lower df)"
  "(name, tok) \<in> set problems \<Longrightarrow>
     (name, find_cols lower tok (problem_cols_intensity lower df)) \<in> set (key_intensity lower df)"
  by (force simp: key_problems_def key_intensity_def)+

lemma rate_key_not_intensity:
  "(name, tok) \<in> set problems \<Longrightarrow>
     name @ ''_rate'' \<notin> (\<lambda>(name, cols). name @ ''_intensity'') ` set (key_intensity lower df)"
proof
  assume a: "(name, tok) \<in> set problems"
    and "name @ ''_rate'' \<in> (\<lambda>(name, cols). name @ ''_intensity'') ` set (key_intensity lower df)"
  then obtain n where "n \<in> fst ` set problems" "name @ ''_rate'' = n @ ''_intensity''"
    using key_problems_names(2) [of lower df]
    by (force simp: image_iff key_intensity_def)
  with a show False by (auto simp: problems_def)
qed

lemma intensity_key_not_rate:
  "(name, tok) \<in> set problems \<Longrightarrow>
     name @ ''_intensity'' \<notin> (\<lambda>(name, cols). name @ ''_rate'') ` set (key_problems lower df)"
proof
  assume a: "(name, tok) \<in> set problems"
    and "name @ ''_intensity'' \<in> (\<lambda>(name, cols). name @ ''_rate'') ` set (key_problems lower df)"
  then obtain n where "n \<in> fst ` set problems" "name @ ''_intensity'' = n @ ''_rate''"
    using key_problems_names(1) [of lower df]
    by (force simp: image_iff key_problems_def)
  with a show False by (auto simp: problems_def)
qed

lemma group_scores_rate:
  assumes "(name, tok) \<in> set problems"
  shows "map_of (group_scores lower df grp) (name @ ''_rate'') =
     (case find_cols lower tok (problem_cols_yes lower df) of
        [] \<Rightarrow> None
      | col # _ \<Rightarrow> Some (JFloat (normalize yes_map (map (\<lambda>row. row col) grp))))"
proof -
  have ne: "name @ ''_rate'' \<noteq> ''count''" "name @ ''_rate'' \<noteq> ''risk_score''"
    using assms by (auto simp: problems_def)
  show ?thesis
    using ne
    by (simp add: group_scores_def Let_def update_conv
        score_loop_other [OF rate_key_not_intensity [OF assms]]
        score_loop_lookup [OF key_problems_mem(1) [OF assms]] key_problems_names distinct_problems
        split: list.splits)
qed

lemma group_scores_intensity:
  assumes "(name, tok) \<in> set problems"
  shows "map_of (group_scores lower df grp) (name @ ''_intensity'') =
     (case find_cols lower tok (problem_cols_intensity lower df) of
        [] \<Rightarrow> None
      | col # _ \<Rightarrow> Some (JFloat (normalize intensity_map (map (\<lambda>row. row col) grp))))"
proof -
  have ne: "name @ ''_intensity'' \<noteq> ''count''" "name @ ''_intensity'' \<noteq> ''risk_score''"
    using assms by (auto simp: problems_def)
  show ?thesis
    using ne
    by (simp add: group_scores_def Let_def update_conv
        score_loop_other [OF intensity_key_not_rate [OF assms]]
        score_loop_lookup [OF key_problems_mem(2) [OF assms]] key_problems_names distinct_problems
        split: list.splits)
qed


lemma normalize_Fin: "\<exists>r. normalize m vals = Fin r"
  by (simp add: normalize_eq)

lemma set_update_subset: "set (AList.update k v al) \<subseteq> insert (k, v) (set al)"
  by (induction al) auto

lemma fin_scores_update:
  "fin_scores sc \<Longrightarrow> fin_scores (AList.update k (JFloat (Fin r)) sc)"
  using set_update_subset [of k "JFloat (Fin r)" sc] by (auto simp: fin_scores_def)

lemma fin_scores_score_loop:
  "fin_scores sc \<Longrightarrow> fin_scores (score_loop sfx m grp kps sc)"
proof (induction kps arbitrary: sc)
  case Nil
  then show ?case by simp
next
  case (Cons p kps)
  obtain n cs where p: "p = (n, cs)" by (cases p)
  show ?case
  proof (cases cs)
    case Nil
    with Cons p show ?thesis by simp
  next
    case (Cons col rest)
    obtain r where "normalize m (map (\<lambda>row. row col) grp) = Fin r"
      using normalize_Fin by blast
    with Cons Cons.IH Cons.prems p show ?thesis
      by (simp add: fin_scores_update)
  qed
qed

lemma times_weight_Fin:
  "fin_scores sc \<Longrightarrow> \<exists>r. times_weight (get_or_zero sc k) w = Fin r"
proof (cases "map_of sc k")
  case None
  then show ?thesis by (simp add: get_or_zero_def times_weight_def)
next
  case (Some v)
  assume "fin_scores sc"
  with Some obtain r where "v = JFloat (Fin r)"
    by (auto simp: fin_scores_def dest!: map_of_SomeD)
  with Some show ?thesis by (simp add: get_or_zero_def times_weight_def pf_mul_def)
qed

lemma foldl_pf_add_Fin:
  "\<forall>x \<in> set xs. \<exists>r. x = Fin r \<Longrightarrow> \<exists>r. foldl pf_add (Fin a) xs = Fin r"
  by (induction xs arbitrary: a) (auto simp: pf_add_def)

lemma risk_Fin: "fin_scores sc \<Longrightarrow> \<exists>r. risk sc = Fin r"
  unfolding risk_def py_sum_def
  by (rule foldl_pf_add_Fin) (auto simp: times_weight_Fin)

lemma group_scores_no_NaN: "NaN \<notin> set (score_floats (group_scores lower df grp))"
proof -
  let ?s2 = "score_loop ''_intensity'' intensity_map grp (key_intensity lower df)
      (score_loop ''_rate'' yes_map grp (key_problems lower df) [])"
  have fin: "fin_scores ?s2"
    by (intro fin_scores_score_loop) (simp add: fin_scores_def)
  then obtain r where r: "risk ?s2 = Fin r" using risk_Fin by blast
  have "set (group_scores lower df grp) \<subseteq>
      insert (''count'', JInt (int (length grp)))
        (insert (''risk_score'', JFloat (Fin (round_np 3 r))) (set ?s2))"
    using set_update_subset [of "''count''" "JInt (int (length grp))"
        "AList.update ''risk_score'' (JFloat (Fin (round_np 3 r))) ?s2"]
      set_update_subset [of "''risk_score''" "JFloat (Fin (round_np 3 r))" ?s2]
    by (auto simp: group_scores_def Let_def r np_round_def)
  with fin show ?thesis
    by (fastforce simp: score_floats_def fin_scores_def split: jnum.splits)
qed

lemma mask_Fin: "mask lat lon row \<Longrightarrow> \<exists>a b. row lat = Fin a \<and> row lon = Fin b"
  by (auto simp: mask_def pf_ge_def split: pyfloat.splits)

lemma points_no_NaN:
  "(a, b) \<in> set (points_loop lat lon (df_bari lat lon df) []) \<Longrightarrow> a \<noteq> NaN \<and> b \<noteq> NaN"
  by (auto simp: points_loop_append df_bari_def np_round_def dest!: mask_Fin)

lemma document_no_NaN:
  assumes "build lower df df_2023 df_2017 = Inr (tally, doc)"
  shows "NaN \<notin> set (document_floats doc)"
proof -
  from build_InrD [OF assms] obtain ns g pts sd where
    ns: "survey_stage lower df = Inr ns" and
    inc: "incident_stage lower df_2023 = Inr (g, pts)" and
    doc: "doc = \<lparr>neighborhoodScores = ns, incidentGrid = g,
                  gridConfig = [(''latStep'', GRID_LAT), (''lonStep'', GRID_LON)],
                  dangerousStreets = sd, incidentPoints2023 = take 500 pts\<rparr>"
    by blast
  from survey_stage_InrD [OF ns] obtain q where "ns = neighborhood_scores lower df q" by blast
  then have 1: "NaN \<notin> set (concat (map (\<lambda>(k, sc). score_floats sc) ns))"
    using group_scores_no_NaN by (auto simp: neighborhood_scores_def)
  from incident_stage_InrD [OF inc] obtain lat lon where
    "pts = points_loop lat lon (df_bari lat lon df_2023) []" by blast
  then have 2: "\<forall>(a, b) \<in> set (take 500 pts). a \<noteq> NaN \<and> b \<noteq> NaN"
    by (blast dest: in_set_takeD points_no_NaN)
  show ?thesis
    using 1 2 by (auto simp: doc document_floats_def)
qed







text \<open>
  C3: when every cell of a column is missing or outside the lookup table, the
  normaliser returns exactly 0.0, and so does the emitted rate or intensity field of a
  group whose cells in the resolved column are all of that kind.  The normaliser never
  returns NaN, and no float of a written document (score fields, grid steps, incident
  points) is NaN.
\<close>

theorem no_mappable_value_gives_zero:
  "((\<forall>v \<in> set vals. v = None \<or> (\<exists>s. v = Some s \<and> m s = None)) \<longrightarrow>
      normalize m vals = Fin 0) \<and>
   normalize m vals \<noteq> NaN \<and>
   (\<forall>(name, tok) \<in> set problems.
      (\<forall>col rest.
         find_cols lower tok (problem_cols_yes lower df) = col # rest \<and>
         (\<forall>row \<in> set grp. row col = None \<or> (\<exists>s. row col = Some s \<and> yes_map s = None)) \<longrightarrow>
         map_of (group_scores lower df grp) (name @ ''_rate'') = Some (JFloat (Fin 0))) \<and>
      (\<forall>col rest.
         find_cols lower tok (problem_cols_intensity lower df) = col # rest \<and>
         (\<forall>row \<in> set grp. row col = None \<or> (\<exists>s. row col = Some s \<and> intensity_map s = None)) \<longrightarrow>
         map_of (group_scores lower df grp) (name @ ''_intensity'') = Some (JFloat (Fin 0)))) \<and>
   (build lower df incidents streets = Inr (tally, doc) \<longrightarrow> NaN \<notin> set (document_floats doc))"
proof -
  have zero: "normalize m' (map (\<lambda>row. row col) grp) = Fin 0"
    if "\<forall>row \<in> set grp. row col = None \<or> (\<exists>s. row col = Some s \<and> m' s = None)"
    for m' col
    using that by (simp add: normalize_eq mapped_values_Nil)
  have "(\<forall>v \<in> set vals. v = None \<or> (\<exists>s. v = Some s \<and> m s = None)) \<longrightarrow> normalize m vals = Fin 0"
    by (simp add: normalize_eq mapped_values_Nil)
  moreover have "normalize m vals \<noteq> NaN"
    using normalize_Fin [of m vals] by auto
  moreover have "\<forall>(name, tok) \<in> set problems.
      (\<forall>col rest.
         find_cols lower tok (problem_cols_yes lower df) = col # rest \<and>
         (\<forall>row \<in> set grp. row col = None \<or> (\<exists>s. row col = Some s \<and> yes_map s = None)) \<longrightarrow>
         map_of (group_scores lower df grp) (name @ ''_rate'') = Some (JFloat (Fin 0))) \<and>
      (\<forall>col rest.
         find_cols lower tok (problem_cols_intensity lower df) = col # rest \<and>
         (\<forall>row \<in> set grp. row col = None \<or> (\<exists>s. row col = Some s \<and> intensity_map s = None)) \<longrightarrow>
         map_of (group_scores lower df grp) (name @ ''_intensity'') = Some (JFloat (Fin 0)))"
    using zero by (auto simp: group_scores_rate group_scores_intensity)
  moreover have "build lower df incidents streets = Inr (tally, doc) \<longrightarrow>
      NaN \<notin> set (document_floats doc)"
    using document_no_NaN by blast
  ultimately show ?thesis by blast
qed

theorem no_mappable_value_gives_zero_witness:
  "normalize yes_map [Some ''Forse'', None] = Fin 0 \<and>
   map_of (group_scores ascii_lower example_survey
       (filter (\<lambda>row. row ''Quale_quartiere_abita'' = Some ''B'') (rows example_survey)))
     ''spaccio_intensity'' = Some (JFloat (Fin 0)) \<and>
   build ascii_lower example_survey example_incidents example_streets =
     Inr ([(''LuoghiInsicurezza_parco'', 1)], example_document) \<and>
   NaN \<notin> set (document_floats example_document)"
proof -
  let ?grp = "filter (\<lambda>row. row ''Quale_quartiere_abita'' = Some ''B'') (rows example_survey)"
  note inst = no_mappable_value_gives_zero
    [where m = yes_map and vals = "[Some ''Forse'', None]"
      and lower = ascii_lower and df = example_survey and grp = ?grp
      and incidents = example_incidents and streets = example_streets
      and tally = "[(''LuoghiInsicurezza_parco'', 1)]" and doc = example_document]
  have forse: "yes_map ''Forse'' = None"
    by (simp add: yes_map_def Si_accented_def)
  have cols: "find_cols ascii_lower ''spaccio'' (problem_cols_intensity ascii_lower example_survey) =
      [''ProblemiQuartiere_spaccio_scala_2'']"
    by code_simp
  have cells: "\<forall>row \<in> set ?grp. row ''ProblemiQuartiere_spaccio_scala_2'' = None"
    by (simp add: example_survey_def)
  have mem: "(''spaccio'', ''spaccio'') \<in> set problems"
    by (simp add: problems_def)
  from inst forse have "normalize yes_map [Some ''Forse'', None] = Fin 0"
    by simp
  moreover from inst mem cols cells
  have "map_of (group_scores ascii_lower example_survey ?grp) (''spaccio'' @ ''_intensity'') =
      Some (JFloat (Fin 0))"
    by blast
  moreover from inst example_build have "NaN \<notin> set (document_floats example_document)"
    by blast
  ultimately show ?thesis using example_build by simp
qed

subsection \<open>Missing required columns and the output file\<close>

lemma incident_stage_no_match:
  "find_cols lower ''latit'' (columns incidents) = [] \<or>
   find_cols lower ''longit'' (columns incidents) = [] \<Longrightarrow>
     incident_stage lower incidents = Inl IndexError"
  by (auto simp: incident_stage_def lat_col_def lon_col_def first_def split: list.splits)

lemma street_stage_no_match:
  "find_cols lower ''denominaz'' (columns streets) = [] \<Longrightarrow>
     street_stage lower streets = Inl IndexError"
  by (simp add: street_stage_def street_col_def first_def)

lemma run_atomic:
  "(\<exists>e. run lower df incidents streets prev = (Inl e, prev)) \<or>
   (\<exists>tally doc. build lower df incidents streets = Inr (tally, doc) \<and>
      run lower df incidents streets prev = (Inr tally, Some doc))"
  by (cases "build lower df incidents streets") (auto simp: run_def)

text \<open>
  C8: taking the first element of an empty match list for the latitude, longitude or
  street-name column raises IndexError.  Whenever one of the three matches is empty the
  run ends in an exception and leaves the output file as it was; the exception is that
  IndexError whenever the sections before the failing line complete, which is when the
  match is evaluated at all.  Every run either ends in an exception with the file
  untouched or writes the one document.
\<close>

theorem missing_required_column_aborts:
  "(find_cols lower ''latit'' (columns incidents) = [] \<longrightarrow>
      lat_col lower incidents = Inl IndexError) \<and>
   (find_cols lower ''longit'' (columns incidents) = [] \<longrightarrow>
      lon_col lower incidents = Inl IndexError) \<and>
   (find_cols lower ''denominaz'' (columns streets) = [] \<longrightarrow>
      street_col lower streets = Inl IndexError) \<and>
   (find_cols lower ''latit'' (columns incidents) = [] \<or>
    find_cols lower ''longit'' (columns incidents) = [] \<or>
    find_cols lower ''denominaz'' (columns streets) = [] \<longrightarrow>
      (\<exists>e. run lower df incidents streets prev = (Inl e, prev))) \<and>
   ((find_cols lower ''latit'' (columns incidents) = [] \<or>
     find_cols lower ''longit'' (columns incidents) = []) \<and>
    (\<exists>ns. survey_stage lower df = Inr ns) \<longrightarrow>
      run lower df incidents streets prev = (Inl IndexError, prev)) \<and>
   (find_cols lower ''denominaz'' (columns streets) = [] \<and>
    (\<exists>ns. survey_stage lower df = Inr ns) \<and> (\<exists>g. incident_stage lower incidents = Inr g) \<longrightarrow>
      run lower df incidents streets prev = (Inl IndexError, prev)) \<and>
   ((\<exists>e. run lower df incidents streets prev = (Inl e, prev)) \<or>
    (\<exists>tally doc. run lower df incidents streets prev = (Inr tally, Some doc)))"
proof -
  have 1: "find_cols lower ''latit'' (columns incidents) = [] \<longrightarrow>
      lat_col lower incidents = Inl IndexError"
    "find_cols lower ''longit'' (columns incidents) = [] \<longrightarrow>
      lon_col lower incidents = Inl IndexError"
    "find_cols lower ''denominaz'' (columns streets) = [] \<longrightarrow>
      street_col lower streets = Inl IndexError"
    by (simp_all add: lat_col_def lon_col_def street_col_def first_def)
  have 2: "run lower df incidents streets prev = (Inl IndexError, prev)"
    if "find_cols lower ''latit'' (columns incidents) = [] \<or>
        find_cols lower ''longit'' (columns incidents) = []" "survey_stage lower df = Inr ns"
    for ns
    using that incident_stage_no_match [of lower incidents]
    by (simp add: run_def build_def)
  have 3: "run lower df incidents streets prev = (Inl IndexError, prev)"
    if "find_cols lower ''denominaz'' (columns streets) = []" "survey_stage lower df = Inr ns"
      "incident_stage lower incidents = Inr g"
    for ns g
    using that street_stage_no_match [of lower streets]
    by (simp add: run_def build_def split: prod.splits)
  have 4: "\<exists>e. run lower df incidents streets prev = (Inl e, prev)"
    if "find_cols lower ''latit'' (columns incidents) = [] \<or>
        find_cols lower ''longit'' (columns incidents) = [] \<or>
        find_cols lower ''denominaz'' (columns streets) = []"
    using that incident_stage_no_match [of lower incidents] street_stage_no_match [of lower streets]
    by (auto simp: run_def build_def split: sum.splits prod.splits)
  show ?thesis
    using 1 2 3 4 run_atomic [of lower df incidents streets prev] by blast
qed


theorem missing_required_column_aborts_witness:
  "lat_col ascii_lower example_no_latitude = Inl IndexError \<and>
   run ascii_lower example_survey example_no_latitude example_streets None =
     (Inl IndexError, None) \<and>
   lon_col ascii_lower example_no_longitude = Inl IndexError \<and>
   run ascii_lower example_survey example_no_longitude example_streets None =
     (Inl IndexError, None) \<and>
   street_col ascii_lower example_no_street = Inl IndexError \<and>
   run ascii_lower example_survey example_incidents example_no_street None =
     (Inl IndexError, None)"
proof -
  have lat: "find_cols ascii_lower ''latit'' (columns example_no_latitude) = []"
    and lon: "find_cols ascii_lower ''longit'' (columns example_no_longitude) = []"
    and str: "find_cols ascii_lower ''denominaz'' (columns example_no_street) = []"
    by code_simp+
  note a = missing_required_column_aborts
    [where lower = ascii_lower and df = example_survey and incidents = example_no_latitude
      and streets = example_streets and prev = None]
  note b = missing_required_column_aborts
    [where lower = ascii_lower and df = example_survey and incidents = example_no_longitude
      and streets = example_streets and prev = None]
  note c = missing_required_column_aborts
    [where lower = ascii_lower and df = example_survey and incidents = example_incidents
      and streets = example_no_street and prev = None]
  from a lat example_survey_stage
  have "lat_col ascii_lower example_no_latitude = Inl IndexError"
    "run ascii_lower example_survey example_no_latitude example_streets None =
       (Inl IndexError, None)"
    by blast+
  moreover from b lon example_survey_stage
  have "lon_col ascii_lower example_no_longitude = Inl IndexError"
    "run ascii_lower example_survey example_no_longitude example_streets None =
       (Inl IndexError, None)"
    by blast+
  moreover from c str example_survey_stage example_incident_stage
  have "street_col ascii_lower example_no_street = Inl IndexError"
    "run ascii_lower example_survey example_incidents example_no_street None =
       (Inl IndexError, None)"
    by blast+
  ultimately show ?thesis by blast
qed

subsection \<open>What the document depends on\<close>

lemma agree_on_map: "agree_on cs rs rs' \<Longrightarrow> c \<in> set cs \<Longrightarrow> map (\<lambda>row. row c) rs = map (\<lambda>row. row c) rs'"
  unfolding agree_on_def by (induction rs rs' rule: list_all2_induct) auto

lemma agree_on_length: "agree_on cs rs rs' \<Longrightarrow> length rs = length rs'"
  by (simp add: agree_on_def list_all2_lengthD)

lemma agree_on_filter:
  "agree_on cs rs rs' \<Longrightarrow> q \<in> set cs \<Longrightarrow>
     agree_on cs (filter (\<lambda>row. row q = v) rs) (filter (\<lambda>row. row q = v) rs')"
  unfolding agree_on_def by (induction rs rs' rule: list_all2_induct) auto

lemma score_loop_agree:
  assumes "\<forall>(name, cols) \<in> set kps. \<forall>col rest. cols = col # rest \<longrightarrow>
      map (\<lambda>row. row col) grp = map (\<lambda>row. row col) grp'"
  shows "score_loop sfx m grp kps sc = score_loop sfx m grp' kps sc"
  using assms
proof (induction kps arbitrary: sc)
  case Nil
  then show ?case by simp
next
  case (Cons p kps)
  obtain n cs where p: "p = (n, cs)" by (cases p)
  with Cons show ?case by (cases cs) auto
qed

lemma scored_columns_mem:
  "(name, col # rest) \<in> set (key_problems lower df) \<Longrightarrow> col \<in> set (scored_columns lower df)"
  "(name, col # rest) \<in> set (key_intensity lower df) \<Longrightarrow> col \<in> set (scored_columns lower df)"
  "q_col lower df = Some q \<Longrightarrow> q \<in> set (scored_columns lower df)"
  by (force simp: scored_columns_def)+

lemma group_scores_agree:
  assumes "agree_on (scored_columns lower df) grp grp'" "columns df' = columns df"
  shows "group_scores lower df grp = group_scores lower df' grp'"
proof -
  have kp: "key_problems lower df' = key_problems lower df"
    "key_intensity lower df' = key_intensity lower df"
    using assms(2)
    by (simp_all add: key_problems_def key_intensity_def problem_cols_yes_def
        problem_cols_intensity_def)
  have 1: "score_loop sfx m grp (key_problems lower df) sc =
      score_loop sfx m grp' (key_problems lower df) sc" for sfx m sc
    by (rule score_loop_agree) (auto intro: agree_on_map [OF assms(1)] scored_columns_mem)
  have 2: "score_loop sfx m grp (key_intensity lower df) sc =
      score_loop sfx m grp' (key_intensity lower df) sc" for sfx m sc
    by (rule score_loop_agree) (auto intro: agree_on_map [OF assms(1)] scored_columns_mem)
  show ?thesis
    by (simp add: group_scores_def kp 1 2 agree_on_length [OF assms(1)])
qed

lemma map_filter_col:
  "List.map_filter (\<lambda>row. row q) rs = List.map_filter id (map (\<lambda>row. row q) rs)"
  by (induction rs) (simp_all add: map_filter_simps split: option.splits)

lemma q_col_columns: "columns df' = columns df \<Longrightarrow> q_col lower df' = q_col lower df"
  by (simp add: q_col_def quartiere_col_def split: list.splits)

lemma survey_stage_agree:
  assumes "agree_on (scored_columns lower df) (rows df) (rows df')" "columns df' = columns df"
  shows "survey_stage lower df = survey_stage lower df'"
proof (cases "q_col lower df")
  case None
  moreover have "q_col lower df' = q_col lower df"
    using assms(2) by (rule q_col_columns)
  ultimately show ?thesis by (simp add: survey_stage_def)
next
  case (Some q)
  have q': "q_col lower df' = Some q"
    using q_col_columns [OF assms(2), of lower] Some by simp
  have qs: "q \<in> set (scored_columns lower df)"
    using Some by (rule scored_columns_mem)
  have keys: "group_keys df' q = group_keys df q"
    using agree_on_map [OF assms(1) qs]
    by (simp add: group_keys_def map_filter_col [of q "rows df"] map_filter_col [of q "rows df'"])
  have "neighborhood_scores lower df q = neighborhood_scores lower df' q"
    unfolding neighborhood_scores_def keys
    by (intro map_cong refl) (simp add: group_scores_agree [OF agree_on_filter [OF assms(1) qs] assms(2)])
  with Some q' show ?thesis by (simp add: survey_stage_def)
qed

lemma build_agree:
  assumes "agree_on (scored_columns lower df) (rows df) (rows df')" "columns df' = columns df"
  shows "map_sum id snd (build lower df incidents streets) =
         map_sum id snd (build lower df' incidents streets)"
  by (simp add: build_def survey_stage_agree [OF assms] split: sum.splits prod.splits)

lemma example_scored_columns:
  "scored_columns ascii_lower example_survey =
     [''Quale_quartiere_abita'', ''ProblemiQuartiere_spaccio_scala_1'',
      ''ProblemiQuartiere_spaccio_scala_2'']"
  by code_simp

lemma example_unselected_tally:
  "unsafe_places ascii_lower example_survey_unselected = [(''LuoghiInsicurezza_parco'', 0)]"
  by code_simp

lemma overlap_luoghi:
  "sublist ''luoghiinsicurezza''
     (ascii_lower ''luoghiinsicurezza_problemiquartiere_spaccio_scala_1'')"
  by code_simp

lemma overlap_survey_stage:
  "survey_stage ascii_lower (example_overlap Si_accented) =
     Inr [(''A'', [(''spaccio_rate'', JFloat (Fin 1)), (''risk_score'', JFloat (Fin (dec 25 2))),
                  (''count'', JInt 1)])]"
  "survey_stage ascii_lower (example_overlap ''No'') =
     Inr [(''A'', [(''spaccio_rate'', JFloat (Fin 0)), (''risk_score'', JFloat (Fin 0)),
                  (''count'', JInt 1)])]"
  by code_simp+

text \<open>
  C10, as stated, fails: the tally of section 4 is no field of the document, but a
  column that contains \<^verbatim>\<open>luoghiinsicurezza\<close> can at the same time be a column the scores
  are computed from.  In \<open>example_overlap\<close> the unsafe-place column is also the resolved
  yes/no column of \<^verbatim>\<open>spaccio\<close>; two surveys that differ in nothing but one cell of that
  column give the rate 1.0 in one written document and 0.0 in the other.
\<close>

theorem unsafe_places_change_document_counterexample:
  "columns (example_overlap ''No'') = columns (example_overlap Si_accented) \<and>
   list_all2 (\<lambda>row row'. \<forall>c. \<not> sublist ''luoghiinsicurezza'' (ascii_lower c) \<longrightarrow> row c = row' c)
     (rows (example_overlap Si_accented)) (rows (example_overlap ''No'')) \<and>
   map_option neighborhoodScores
     (snd (run ascii_lower (example_overlap Si_accented) example_incidents example_streets None)) =
     Some [(''A'', [(''spaccio_rate'', JFloat (Fin 1)), (''risk_score'', JFloat (Fin (dec 25 2))),
                   (''count'', JInt 1)])] \<and>
   map_option neighborhoodScores
     (snd (run ascii_lower (example_overlap ''No'') example_incidents example_streets None)) =
     Some [(''A'', [(''spaccio_rate'', JFloat (Fin 0)), (''risk_score'', JFloat (Fin 0)),
                   (''count'', JInt 1)])] \<and>
   snd (run ascii_lower (example_overlap Si_accented) example_incidents example_streets None) \<noteq>
   snd (run ascii_lower (example_overlap ''No'') example_incidents example_streets None)"
proof -
  have 1: "columns (example_overlap ''No'') = columns (example_overlap Si_accented)"
    by (simp add: example_overlap_def)
  have 2: "list_all2 (\<lambda>row row'. \<forall>c. \<not> sublist ''luoghiinsicurezza'' (ascii_lower c) \<longrightarrow> row c = row' c)
     (rows (example_overlap Si_accented)) (rows (example_overlap ''No''))"
    using overlap_luoghi by (auto simp: example_overlap_def)
  have 3: "map_option neighborhoodScores
     (snd (run ascii_lower (example_overlap Si_accented) example_incidents example_streets None)) =
     Some [(''A'', [(''spaccio_rate'', JFloat (Fin 1)), (''risk_score'', JFloat (Fin (dec 25 2))),
                   (''count'', JInt 1)])]"
    by (simp add: run_def build_def overlap_survey_stage example_incident_stage
        example_streets_stage)
  have 4: "map_option neighborhoodScores
     (snd (run ascii_lower (example_overlap ''No'') example_incidents example_streets None)) =
     Some [(''A'', [(''spaccio_rate'', JFloat (Fin 0)), (''risk_score'', JFloat (Fin 0)),
                   (''count'', JInt 1)])]"
    by (simp add: run_def build_def overlap_survey_stage example_incident_stage
        example_streets_stage)
  have "snd (run ascii_lower (example_overlap Si_accented) example_incidents example_streets None) \<noteq>
   snd (run ascii_lower (example_overlap ''No'') example_incidents example_streets None)"
  proof
    assume "snd (run ascii_lower (example_overlap Si_accented) example_incidents example_streets None) =
      snd (run ascii_lower (example_overlap ''No'') example_incidents example_streets None)"
    with 3 4 show False by simp
  qed
  with 1 2 3 4 show ?thesis by blast
qed

text \<open>
  C10, amended: when two surveys have the same header and every cell in which they
  differ lies in a \<^verbatim>\<open>luoghiinsicurezza\<close> column that is none of the scored columns (the
  resolved neighbourhood column and the first resolved yes/no and intensity column of
  each problem), the two runs leave the same output file and fail alike; the unsafe-place
  tally, which is only printed, may differ.
\<close>

theorem unsafe_places_not_in_document:
  assumes "columns df' = columns df"
    and "list_all2 (\<lambda>row row'. \<forall>c. row c \<noteq> row' c \<longrightarrow>
           sublist ''luoghiinsicurezza'' (lower c) \<and> c \<notin> set (scored_columns lower df))
         (rows df) (rows df')"
  shows "snd (run lower df incidents streets prev) = snd (run lower df' incidents streets prev) \<and>
         (\<forall>e. fst (run lower df incidents streets prev) = Inl e \<longleftrightarrow>
              fst (run lower df' incidents streets prev) = Inl e)"
proof -
  from assms(2) have "agree_on (scored_columns lower df) (rows df) (rows df')"
    unfolding agree_on_def by (rule list_all2_mono) auto
  from build_agree [OF this assms(1), of incidents streets] show ?thesis
    by (cases "build lower df incidents streets"; cases "build lower df' incidents streets")
      (auto simp: run_def)
qed


theorem unsafe_places_not_in_document_witness:
  "snd (run ascii_lower example_survey example_incidents example_streets None) =
     snd (run ascii_lower example_survey_unselected example_incidents example_streets None) \<and>
   snd (run ascii_lower example_survey example_incidents example_streets None) =
     Some example_document \<and>
   unsafe_places ascii_lower example_survey \<noteq> unsafe_places ascii_lower example_survey_unselected"
proof -
  have luoghi: "sublist ''luoghiinsicurezza'' (ascii_lower ''LuoghiInsicurezza_parco'')"
    by code_simp
  have cols: "columns example_survey_unselected = columns example_survey"
    by (simp add: example_survey_unselected_def)
  have rel: "list_all2 (\<lambda>row row'. \<forall>c. row c \<noteq> row' c \<longrightarrow>
           sublist ''luoghiinsicurezza'' (ascii_lower c) \<and>
           c \<notin> set (scored_columns ascii_lower example_survey))
         (rows example_survey) (rows example_survey_unselected)"
    unfolding example_scored_columns
    using luoghi by (simp add: example_survey_unselected_def list_all2_map2 list_all2_same)
  from unsafe_places_not_in_document [OF cols rel, of example_incidents example_streets None]
  show ?thesis
    using example_build
    by (simp add: run_def example_unsafe_places example_unselected_tally)
qed

subsection \<open>Grid keys\<close>

lemma grid_key_Fin:
  "grid_key (Fin lat) (Fin lon) =
     Inr (float_repr (round_nd 4 (fmul (fl (of_int \<lfloor>fdiv lat GRID_LAT\<rfloor>)) GRID_LAT)) @ '','' @
          float_repr (round_nd 4 (fmul (fl (of_int \<lfloor>fdiv lon GRID_LON\<rfloor>)) GRID_LON)))"
  by (simp add: grid_key_def grid_coord_def py_floor_def pf_div_def)

lemma grid_loop_ok:
  "\<forall>row \<in> set rs. mask lat lon row \<Longrightarrow>
     \<exists>g. grid_loop lat lon rs acc = Inr g \<and> (rs \<noteq> [] \<or> acc \<noteq> [] \<longrightarrow> g \<noteq> [])"
proof (induction rs arbitrary: acc)
  case Nil
  then show ?case by simp
next
  case (Cons row rs)
  then obtain a b where "row lat = Fin a" "row lon = Fin b"
    using mask_Fin [of lat lon row] by auto
  then obtain key where key: "grid_key (row lat) (row lon) = Inr key"
    using grid_key_Fin [of a b] by auto
  from Cons.prems have "\<forall>row \<in> set rs. mask lat lon row" by simp
  from Cons.IH [OF this] key show ?case
    by (simp del: AList.update.simps) (metis update_nonempty)
qed

lemma in_box_41_16: "in_box (Fin (dec 4116 2)) (Fin (dec 168 1))"
  by code_simp

text \<open>
  C2, as stated, fails in its last part.  The latitude 41.16 is the cell boundary
  \<open>13720 \<times> 0.003\<close> and lies in the bounding box, but in double arithmetic
  \<^verbatim>\<open>41.16 / 0.003\<close> is just below 13720, so its floor is 13719 and the point gets the key
  of the preceding cell, the one starting at 41.157.  The double 41.16 is in fact below
  the decimal 41.16 and the double 0.003 above the decimal 0.003: the exact quotient of
  the two doubles has the floor 13719 as well.
\<close>

theorem grid_boundary_counterexample:
  "in_box (Fin (dec 4116 2)) (Fin (dec 168 1)) \<and>
   dec 4116 2 = dec (13720 * 3) 3 \<and>
   \<lfloor>fdiv (dec 4116 2) GRID_LAT\<rfloor> = 13719 \<and>
   \<lfloor>dec 4116 2 / GRID_LAT\<rfloor> = 13719 \<and>
   grid_coord GRID_LAT (Fin (dec 4116 2)) = Inr (dec (13719 * 3) 3) \<and>
   dec (13719 * 3) 3 < dec 4116 2 \<and>
   grid_key (Fin (dec 4116 2)) (Fin (dec 168 1)) = Inr ''41.157,16.8''"
  by code_simp

text \<open>
  C2, amended: the grid key of a point with numeric coordinates is the text
  \<^verbatim>\<open>"<glat>,<glon>"\<close> with \<^verbatim>\<open>glat = round(floor(lat / 0.003) * 0.003, 4)\<close> and
  \<^verbatim>\<open>glon = round(floor(lon / 0.004) * 0.004, 4)\<close>, every operation being the one of double
  arithmetic; every point of the bounding box has a key; equal coordinates give equal
  keys; and the latitude 41.10 is assigned to the cell that starts at 41.1.
\<close>

theorem grid_key_formula:
  "grid_key (Fin lat) (Fin lon) =
     Inr (float_repr (round_nd 4 (fmul (fl (of_int \<lfloor>fdiv lat GRID_LAT\<rfloor>)) GRID_LAT)) @ '','' @
          float_repr (round_nd 4 (fmul (fl (of_int \<lfloor>fdiv lon GRID_LON\<rfloor>)) GRID_LON))) \<and>
   GRID_LAT = dec 3 3 \<and> GRID_LON = dec 4 3 \<and>
   (in_box x y \<longrightarrow> (\<exists>key. grid_key x y = Inr key)) \<and>
   (x = x' \<and> y = y' \<longrightarrow> grid_key x y = grid_key x' y') \<and>
   \<lfloor>fdiv (dec 4110 2) GRID_LAT\<rfloor> = 13700 \<and>
   grid_coord GRID_LAT (Fin (dec 4110 2)) = Inr (dec 4110 2) \<and>
   grid_key (Fin (dec 4110 2)) (Fin (dec 168 1)) = Inr ''41.1,16.8''"
proof -
  have "in_box x y \<longrightarrow> (\<exists>key. grid_key x y = Inr key)"
    by (auto simp: in_box_def grid_key_Fin split: pyfloat.splits)
  moreover have "\<lfloor>fdiv (dec 4110 2) GRID_LAT\<rfloor> = 13700"
    "grid_coord GRID_LAT (Fin (dec 4110 2)) = Inr (dec 4110 2)"
    "grid_key (Fin (dec 4110 2)) (Fin (dec 168 1)) = Inr ''41.1,16.8''"
    by code_simp+
  ultimately show ?thesis
    by (simp add: grid_key_Fin GRID_LAT_def GRID_LON_def)
qed

theorem grid_key_formula_witness:
  "in_box (Fin (dec 4116 2)) (Fin (dec 168 1)) \<and>
   (\<exists>key. grid_key (Fin (dec 4116 2)) (Fin (dec 168 1)) = Inr key) \<and>
   grid_key (Fin (dec 4116 2)) (Fin (dec 168 1)) =
     grid_key (Fin (dec 4116 2)) (Fin (dec 168 1))"
  using grid_key_formula [where x = "Fin (dec 4116 2)" and y = "Fin (dec 168 1)"
      and x' = "Fin (dec 4116 2)" and y' = "Fin (dec 168 1)"] in_box_41_16
  by blast

subsection \<open>Rounding to a double is monotone\<close>

lemma pow2_powi: "pow2 n = 2 powi n"
  by (simp add: pow2_def power_int_def inverse_eq_divide power_one_over)

lemma pow2_pos: "0 < pow2 n"
  by (simp add: pow2_powi)

lemma pow2_mono: "m \<le> n \<Longrightarrow> pow2 m \<le> pow2 n"
  by (simp add: pow2_powi power_int_increasing)

lemma pow2_add: "pow2 (m + n) = pow2 m * pow2 n"
  by (simp add: pow2_powi power_int_add)

lemma pow2_less_imp: "pow2 m < pow2 n \<Longrightarrow> m < n"
  using pow2_mono [of n m] by (cases "m < n") auto

lemma ilog2_bounds:
  assumes "0 < x"
  shows "pow2 (ilog2 x) \<le> x \<and> x < pow2 (ilog2 x + 1)"
proof (cases "1 \<le> x")
  case True
  then have n: "0 < \<lfloor>x\<rfloor>" by linarith
  from bitlen_bounds [OF n] have b: "2 ^ nat (bitlen \<lfloor>x\<rfloor> - 1) \<le> \<lfloor>x\<rfloor>" "\<lfloor>x\<rfloor> < 2 ^ nat (bitlen \<lfloor>x\<rfloor>)"
    by auto
  have b1: "1 \<le> bitlen \<lfloor>x\<rfloor>" using n by (auto simp: bitlen_alt_def)
  have lo: "(2 :: rat) ^ nat (bitlen \<lfloor>x\<rfloor> - 1) \<le> x"
    using b(1) le_floor_iff [of "2 ^ nat (bitlen \<lfloor>x\<rfloor> - 1)" x] by simp
  have hi: "x < (2 :: rat) ^ nat (bitlen \<lfloor>x\<rfloor>)"
    using b(2) floor_less_iff [of x "2 ^ nat (bitlen \<lfloor>x\<rfloor>)"] by simp
  show ?thesis
    using True lo hi b1 by (simp add: ilog2_def pow2_def)
next
  case False
  define y where "y = 1 / x"
  define m where "m = \<lceil>y\<rceil> - 1"
  have y: "1 < y" using False assms by (simp add: y_def)
  then have m: "0 < m" unfolding m_def by linarith
  from bitlen_bounds [OF m] have b: "2 ^ nat (bitlen m - 1) \<le> m" "m < 2 ^ nat (bitlen m)"
    by auto
  have b1: "1 \<le> bitlen m" using m by (auto simp: bitlen_alt_def)
  have "(2 :: rat) ^ nat (bitlen m - 1) \<le> of_int m"
    using b(1) by simp
  moreover have "of_int m < y" unfolding m_def using ceiling_correct [of y] by simp
  ultimately have lo: "(2 :: rat) ^ nat (bitlen m - 1) < y" by (rule le_less_trans)
  have "m + 1 \<le> 2 ^ nat (bitlen m)" using b(2) by simp
  then have "(of_int (m + 1) :: rat) \<le> 2 ^ nat (bitlen m)"
    by (simp only: of_int_le_numeral_power_cancel_iff)
  moreover have "y \<le> of_int (m + 1)" unfolding m_def using ceiling_correct [of y] by simp
  ultimately have hi: "y \<le> (2 :: rat) ^ nat (bitlen m)" by (rule order_trans [rotated])
  have x: "x = 1 / y" using assms by (simp add: y_def)
  have "1 / (2 :: rat) ^ nat (bitlen m) \<le> x"
    unfolding x using hi y by (simp add: frac_le)
  moreover have "x < 1 / (2 :: rat) ^ nat (bitlen m - 1)"
    unfolding x using lo y by (simp add: frac_less2)
  ultimately show ?thesis
    using False b1 unfolding ilog2_def y_def [symmetric] m_def [symmetric]
    by (auto simp: pow2_def nat_diff_distrib')
qed


lemma rhe_of_int: "rhe (of_int n) = n"
  by (simp add: rhe_def)

lemma rhe_bounds: "\<lfloor>x\<rfloor> \<le> rhe x" "rhe x \<le> \<lfloor>x\<rfloor> + 1"
  by (simp_all add: rhe_def Let_def)

lemma rhe_mono:
  assumes "x \<le> y"
  shows "rhe x \<le> rhe y"
proof (cases "\<lfloor>x\<rfloor> = \<lfloor>y\<rfloor>")
  case True
  with assms show ?thesis by (auto simp: rhe_def Let_def)
next
  case False
  with assms have "\<lfloor>x\<rfloor> + 1 \<le> \<lfloor>y\<rfloor>"
    using floor_mono [OF assms] by linarith
  with rhe_bounds(2) [of x] rhe_bounds(1) [of y] show ?thesis by linarith
qed

lemma rhe_ge: "of_int n \<le> x \<Longrightarrow> n \<le> rhe x"
  using rhe_mono [of "of_int n" x] by (simp add: rhe_of_int)

lemma rhe_le: "x \<le> of_int n \<Longrightarrow> rhe x \<le> n"
  using rhe_mono [of x "of_int n"] by (simp add: rhe_of_int)

lemma fl_pos: "0 < x \<Longrightarrow> fl x = of_int (rhe (x / pow2 (fexp x - 52))) * pow2 (fexp x - 52)"
  by (simp add: fl_def fexp_def Let_def)

lemma fl_zero: "fl 0 = 0"
  by (simp add: fl_def)

lemma fl_nonneg: "0 \<le> x \<Longrightarrow> 0 \<le> fl x"
proof (cases "x = 0")
  case False
  assume "0 \<le> x"
  with False have x: "0 < x" by simp
  have "0 \<le> x / pow2 (fexp x - 52)" using x pow2_pos [of "fexp x - 52"] by simp
  then have "0 \<le> rhe (x / pow2 (fexp x - 52))" using rhe_ge [of 0] by simp
  then show ?thesis using pow2_pos [of "fexp x - 52"] by (simp add: fl_pos [OF x])
qed (simp add: fl_zero)

lemma ilog2_mono:
  assumes "0 < x" "x \<le> y"
  shows "ilog2 x \<le> ilog2 y"
proof -
  have "pow2 (ilog2 x) \<le> x" using ilog2_bounds [OF assms(1)] by simp
  also have "x \<le> y" by fact
  also have "y < pow2 (ilog2 y + 1)" using ilog2_bounds [of y] assms by simp
  finally have "ilog2 x < ilog2 y + 1" by (rule pow2_less_imp)
  then show ?thesis by simp
qed

lemma pow2_split53: "pow2 (e + 1) = of_int (2 ^ 53) * pow2 (e - 52)"
  using pow2_add [of 53 "e - 52"] by (simp add: pow2_def [of 53] add.commute)

lemma pow2_split52: "pow2 e = of_int (2 ^ 52) * pow2 (e - 52)"
  using pow2_add [of 52 "e - 52"] by (simp add: pow2_def [of 52])

lemma fl_upper:
  assumes "0 < x"
  shows "fl x \<le> pow2 (fexp x + 1)"
proof -
  let ?q = "pow2 (fexp x - 52)"
  have "x < pow2 (ilog2 x + 1)" using ilog2_bounds [OF assms] by simp
  also have "\<dots> \<le> pow2 (fexp x + 1)"
    using assms by (intro pow2_mono) (simp add: fexp_def)
  finally have "x < pow2 (fexp x + 1)" .
  also have "pow2 (fexp x + 1) = of_int (2 ^ 53) * ?q"
    by (rule pow2_split53)
  finally have "x / ?q \<le> of_int (2 ^ 53)"
    using pow2_pos [of "fexp x - 52"] by (simp add: pos_divide_le_eq less_imp_le)
  then have "rhe (x / ?q) \<le> 2 ^ 53" by (rule rhe_le)
  then have "of_int (rhe (x / ?q)) * ?q \<le> of_int (2 ^ 53) * ?q"
    using pow2_pos [of "fexp x - 52"] by (simp only: mult_le_cancel_right of_int_le_iff) simp
  then show ?thesis
    by (simp only: fl_pos [OF assms] pow2_split53 [of "fexp x"])
qed

lemma fl_lower:
  assumes "0 < x" "- 1022 \<le> ilog2 x"
  shows "pow2 (fexp x) \<le> fl x"
proof -
  let ?q = "pow2 (fexp x - 52)"
  have e: "fexp x = ilog2 x" using assms by (simp add: fexp_def)
  have "pow2 (fexp x) \<le> x" using ilog2_bounds [OF assms(1)] by (simp add: e)
  moreover have "pow2 (fexp x) = of_int (2 ^ 52) * ?q"
    by (rule pow2_split52)
  ultimately have "of_int (2 ^ 52) \<le> x / ?q"
    using pow2_pos [of "fexp x - 52"] by (simp add: pos_le_divide_eq)
  then have "2 ^ 52 \<le> rhe (x / ?q)" by (rule rhe_ge)
  then have "of_int (2 ^ 52) * ?q \<le> of_int (rhe (x / ?q)) * ?q"
    using pow2_pos [of "fexp x - 52"] by (simp only: mult_le_cancel_right of_int_le_iff) simp
  then show ?thesis
    using pow2_split52 [of "fexp x"] by (simp only: fl_pos [OF assms(1)])
qed

lemma fl_mono:
  assumes "0 \<le> x" "x \<le> y"
  shows "fl x \<le> fl y"
proof (cases "x = 0")
  case True
  with assms fl_nonneg [of y] show ?thesis by (simp add: fl_zero)
next
  case False
  with assms have x: "0 < x" and y: "0 < y" by auto
  have le: "fexp x \<le> fexp y"
    using ilog2_mono [OF x assms(2)] x y by (simp add: fexp_def)
  show ?thesis
  proof (cases "fexp x = fexp y")
    case True
    let ?q = "pow2 (fexp y - 52)"
    have "x / ?q \<le> y / ?q"
      using assms(2) pow2_pos [of "fexp y - 52"] by (simp add: divide_right_mono)
    then have "rhe (x / ?q) \<le> rhe (y / ?q)" by (rule rhe_mono)
    then have "of_int (rhe (x / ?q)) * ?q \<le> of_int (rhe (y / ?q)) * ?q"
      using pow2_pos [of "fexp y - 52"] by (simp only: mult_le_cancel_right of_int_le_iff) simp
    then show ?thesis by (simp add: fl_pos [OF x] fl_pos [OF y] True)
  next
    case False
    with le have lt: "fexp x + 1 \<le> fexp y" by simp
    then have "- 1022 \<le> ilog2 y" using y by (simp add: fexp_def)
    from fl_lower [OF y this] have "pow2 (fexp y) \<le> fl y" .
    moreover have "fl x \<le> pow2 (fexp x + 1)" by (rule fl_upper [OF x])
    moreover have "pow2 (fexp x + 1) \<le> pow2 (fexp y)" using lt by (rule pow2_mono)
    ultimately show ?thesis by linarith
  qed
qed

subsection \<open>Risk score\<close>

lemma fl_one: "fl 1 = 1"
  by code_simp

lemma weights_doubles: "fl (dec 25 2) = dec 25 2" "fl (dec 15 2) = dec 15 2" "fl (dec 10 2) = dec 10 2"
  by code_simp+

lemma weights_nonneg: "0 \<le> dec 25 2" "0 \<le> dec 15 2" "0 \<le> dec 10 2"
  by code_simp+

lemma weights_sum_one:
  "foldl fadd 0 [dec 25 2, dec 25 2, dec 15 2, dec 15 2, dec 10 2, dec 10 2] = 1"
  by code_simp

lemma times_weight_rate_field:
  "fin_scores sc \<Longrightarrow> times_weight (get_or_zero sc k) w = pf_mul (rate_field sc k) (Fin w)"
proof (cases "map_of sc k")
  case None
  then show ?thesis
    by (simp add: get_or_zero_def times_weight_def rate_field_def pf_mul_def fl_zero)
next
  case (Some v)
  assume "fin_scores sc"
  with Some obtain r where "v = JFloat (Fin r)"
    by (auto simp: fin_scores_def dest!: map_of_SomeD)
  with Some show ?thesis by (simp add: get_or_zero_def times_weight_def rate_field_def)
qed

lemma risk_weighted_sum: "fin_scores sc \<Longrightarrow> risk sc = weighted_sum sc"
  by (simp add: risk_def py_sum_def weights_def weighted_sum_def times_weight_rate_field)

lemma fmul_unit:
  assumes "0 \<le> r" "r \<le> 1" "0 \<le> w" "fl w = w"
  shows "0 \<le> fmul r w \<and> fmul r w \<le> w"
proof -
  have "0 \<le> r * w" "r * w \<le> w"
    using assms by (simp_all add: mult_left_le_one_le)
  with fl_nonneg [of "r * w"] fl_mono [of "r * w" w] assms(4) show ?thesis
    by (simp add: fmul_def)
qed

lemma foldl_fadd_bounds:
  "list_all2 (\<lambda>p w. 0 \<le> p \<and> p \<le> w) ps ws \<Longrightarrow> 0 \<le> a \<Longrightarrow> a \<le> b \<Longrightarrow>
     0 \<le> foldl fadd a ps \<and> foldl fadd a ps \<le> foldl fadd b ws"
proof (induction ps ws arbitrary: a b rule: list_all2_induct)
  case Nil
  then show ?case by simp
next
  case (Cons p ps w ws)
  have "0 \<le> fadd a p" using Cons.hyps(1) Cons.prems fl_nonneg [of "a + p"] by (simp add: fadd_def)
  moreover have "fadd a p \<le> fadd b w"
    using Cons.hyps(1) Cons.prems fl_mono [of "a + p" "b + w"] by (simp add: fadd_def)
  ultimately show ?case using Cons.IH by simp
qed

lemma foldl_pf_add_map_Fin: "foldl pf_add (Fin a) (map Fin ps) = Fin (foldl fadd a ps)"
  by (induction ps arbitrary: a) (simp_all add: pf_add_def)

lemma fl_thousand: "fl 1000 = 1000"
  by code_simp

lemma round_np_unit:
  assumes "0 \<le> s" "s \<le> 1"
  shows "0 \<le> round_np 3 s \<and> round_np 3 s \<le> 1"
proof -
  have "0 \<le> s * 1000" "s * 1000 \<le> 1000" using assms by simp_all
  with fl_nonneg [of "s * 1000"] fl_mono [of "s * 1000" 1000]
  have lo: "of_int 0 \<le> fmul s (10 ^ 3)" and hi: "fmul s (10 ^ 3) \<le> of_int 1000"
    by (simp_all add: fmul_def fl_thousand)
  have "0 \<le> rhe (fmul s (10 ^ 3))" "rhe (fmul s (10 ^ 3)) \<le> 1000"
    using rhe_ge [OF lo] rhe_le [OF hi] by simp_all
  then have "(of_int 0 :: rat) \<le> of_int (rhe (fmul s (10 ^ 3)))"
    "(of_int (rhe (fmul s (10 ^ 3))) :: rat) \<le> of_int 1000"
    by (simp_all only: of_int_le_iff)
  then have 0: "0 \<le> (of_int (rhe (fmul s (10 ^ 3))) :: rat) / 10 ^ 3"
    and 1: "(of_int (rhe (fmul s (10 ^ 3))) :: rat) / 10 ^ 3 \<le> 1"
    by simp_all
  from fl_nonneg [OF 0] fl_mono [OF 0 1] show ?thesis
    by (simp add: round_np_def fdiv_def fl_one)
qed

lemma weighted_sum_unit:
  assumes "\<forall>k \<in> set rate_keys. \<exists>r. rate_field sc k = Fin r \<and> 0 \<le> r \<and> r \<le> 1"
  shows "\<exists>r. np_round 3 (weighted_sum sc) = Fin r \<and> 0 \<le> r \<and> r \<le> 1"
proof -
  from assms obtain r1 r2 r3 r4 r5 r6 where r:
    "rate_field sc ''spaccio_rate'' = Fin r1" "0 \<le> r1" "r1 \<le> 1"
    "rate_field sc ''criminali_rate'' = Fin r2" "0 \<le> r2" "r2 \<le> 1"
    "rate_field sc ''ragazzini_rate'' = Fin r3" "0 \<le> r3" "r3 \<le> 1"
    "rate_field sc ''illuminazione_rate'' = Fin r4" "0 \<le> r4" "r4 \<le> 1"
    "rate_field sc ''degrado_marciapiedi_rate'' = Fin r5" "0 \<le> r5" "r5 \<le> 1"
    "rate_field sc ''barboni_rate'' = Fin r6" "0 \<le> r6" "r6 \<le> 1"
    unfolding rate_keys_def by (auto simp del: One_nat_def) 
  let ?ps = "[fmul r1 (dec 25 2), fmul r2 (dec 25 2), fmul r3 (dec 15 2), fmul r4 (dec 15 2),
      fmul r5 (dec 10 2), fmul r6 (dec 10 2)]"
  let ?ws = "[dec 25 2, dec 25 2, dec 15 2, dec 15 2, dec 10 2, dec 10 2]"
  have ws: "weighted_sum sc = Fin (foldl fadd 0 ?ps)"
    using foldl_pf_add_map_Fin [of 0 ?ps] by (simp add: weighted_sum_def r pf_mul_def)
  have "list_all2 (\<lambda>p w. 0 \<le> p \<and> p \<le> w) ?ps ?ws"
    using r by (simp add: fmul_unit weights_doubles weights_nonneg)
  from foldl_fadd_bounds [OF this, of 0 0]
  have "0 \<le> foldl fadd 0 ?ps \<and> foldl fadd 0 ?ps \<le> 1"
    by (simp only: weights_sum_one)
  then show ?thesis
    using round_np_unit [of "foldl fadd 0 ?ps"] by (simp add: ws np_round_def)
qed


lemma group_scores_rate_field:
  "k \<in> set rate_keys \<Longrightarrow>
     rate_field (group_scores lower df grp) k =
     rate_field (score_loop ''_intensity'' intensity_map grp (key_intensity lower df)
                  (score_loop ''_rate'' yes_map grp (key_problems lower df) [])) k"
  by (auto simp: rate_keys_def rate_field_def group_scores_def Let_def update_conv)

lemma group_scores_weighted_sum:
  "weighted_sum (group_scores lower df grp) =
     risk (score_loop ''_intensity'' intensity_map grp (key_intensity lower df)
             (score_loop ''_rate'' yes_map grp (key_problems lower df) []))"
proof -
  let ?s2 = "score_loop ''_intensity'' intensity_map grp (key_intensity lower df)
      (score_loop ''_rate'' yes_map grp (key_problems lower df) [])"
  have "fin_scores ?s2"
    by (intro fin_scores_score_loop) (simp add: fin_scores_def)
  then have "risk ?s2 = weighted_sum ?s2" by (rule risk_weighted_sum)
  also have "\<dots> = weighted_sum (group_scores lower df grp)"
    by (simp add: weighted_sum_def group_scores_rate_field rate_keys_def)
  finally show ?thesis by simp
qed

lemma example_rate_fields:
  "map (rate_field (snd (hd example_scores))) rate_keys = [Fin (dec 667 3), Fin 0, Fin 0, Fin 0, Fin 0, Fin 0]"
  by code_simp

lemma example_rate_bound: "0 \<le> dec 667 3 \<and> dec 667 3 \<le> 1"
  by code_simp

lemma example_weighted_sum:
  "np_round 3 (weighted_sum (snd (hd example_scores))) = Fin (dec 167 3)"
  by code_simp

lemma example_twenty_scores:
  "group_scores ascii_lower example_twenty (rows example_twenty) =
     [(''spaccio_rate'', JFloat (Fin (dec 5 2))), (''risk_score'', JFloat (Fin (dec 12 3))),
      (''count'', JInt 20)]"
  by code_simp

text \<open>
  C1: the \<^verbatim>\<open>risk_score\<close> emitted for a group is the weighted sum of the six rate fields
  of that group's dictionary (weights 0.25, 0.25, 0.15, 0.15, 0.10, 0.10; an absent
  field counts as 0), rounded to 3 decimals by NumPy's rounding.  The weights add up to
  exactly 1.0, and for
  any dictionary whose six rate fields are numbers in \<open>[0, 1]\<close> the rounded weighted sum
  is a number in \<open>[0, 1]\<close>.
\<close>

theorem risk_score_weighted_sum:
  "map_of (group_scores lower df grp) ''risk_score'' =
     Some (JFloat (np_round 3 (weighted_sum (group_scores lower df grp)))) \<and>
   foldl fadd 0 (map snd weights) = 1 \<and>
   ((\<forall>k \<in> set rate_keys. \<exists>r. rate_field sc k = Fin r \<and> 0 \<le> r \<and> r \<le> 1) \<longrightarrow>
      (\<exists>r. np_round 3 (weighted_sum sc) = Fin r \<and> 0 \<le> r \<and> r \<le> 1))"
proof -
  have "map_of (group_scores lower df grp) ''risk_score'' =
     Some (JFloat (np_round 3 (weighted_sum (group_scores lower df grp))))"
    unfolding group_scores_weighted_sum
    by (simp add: group_scores_def Let_def update_conv)
  moreover have "foldl fadd 0 (map snd weights) = 1"
    using weights_sum_one by (simp add: weights_def)
  ultimately show ?thesis
    using weighted_sum_unit [of sc] by blast
qed

theorem risk_score_weighted_sum_witness:
  "map (rate_field (snd (hd example_scores))) rate_keys =
     [Fin (dec 667 3), Fin 0, Fin 0, Fin 0, Fin 0, Fin 0] \<and>
   0 \<le> dec 667 3 \<and> dec 667 3 \<le> 1 \<and>
   np_round 3 (weighted_sum (snd (hd example_scores))) = Fin (dec 167 3) \<and>
   0 \<le> dec 167 3 \<and> dec 167 3 \<le> 1 \<and>
   map_of (group_scores ascii_lower example_twenty (rows example_twenty)) ''spaccio_rate'' =
     Some (JFloat (Fin (dec 5 2))) \<and>
   np_round 3 (weighted_sum (group_scores ascii_lower example_twenty (rows example_twenty))) =
     Fin (dec 12 3)"
proof -
  from risk_score_weighted_sum
    [where lower = ascii_lower and df = example_twenty and grp = "rows example_twenty"]
  have twenty: "np_round 3 (weighted_sum (group_scores ascii_lower example_twenty
      (rows example_twenty))) = Fin (dec 12 3)"
    by (simp add: example_twenty_scores)
  have h: "\<forall>k \<in> set rate_keys.
      \<exists>r. rate_field (snd (hd example_scores)) k = Fin r \<and> 0 \<le> r \<and> r \<le> 1"
    using example_rate_fields example_rate_bound by (simp add: rate_keys_def)
  with risk_score_weighted_sum [where sc = "snd (hd example_scores)"]
  obtain r where "np_round 3 (weighted_sum (snd (hd example_scores))) = Fin r" "0 \<le> r" "r \<le> 1"
    by blast
  then show ?thesis
    using example_rate_fields example_rate_bound twenty
    by (simp add: example_weighted_sum example_twenty_scores)
qed

end
